theory Spec2Isabelle
  imports Main
begin

section \<open>The build script of pyflagser (setup.py)\<close>

text \<open>
  The script defines a target descriptor (\<open>CMakeExtension\<close>) and a build command
  (\<open>CMakeBuild\<close>) with three methods: \<open>run\<close>, \<open>install_dependencies\<close> and
  \<open>build_extension\<close>. The methods read facts of the host (platform name, pointer
  size, interpreter path, working directory), read the process environment, test and
  create directories, and start external processes. The embedding makes all of that
  explicit:
  \<^item> the facts of the host that the script cannot change are a record \<open>host\<close>;
  \<^item> what the script can observe or change is a record \<open>world\<close>: the set of paths
    that exist, the process environment \<open>os.environ\<close>, and the list of processes
    started so far, each with its outcome;
  \<^item> the behaviour of the external processes is a function of the host record: given
    the call and the world it answers with an outcome and the paths that exist afterwards;
  \<^item> every exception is a value of type \<open>error\<close>, and every method returns its
    result together with the world it leaves behind.

  Text is a list of characters with code points below 256.
\<close>

subsection \<open>String operations of Python used by the script\<close>

text \<open>\<open>s.startswith(p)\<close>.\<close>

definition startswith :: "string \<Rightarrow> string \<Rightarrow> bool" where
  "startswith s p = (take (length p) s = p)"

text \<open>\<open>sep.join(xs)\<close>.\<close>

fun str_join :: "string \<Rightarrow> string list \<Rightarrow> string" where
  "str_join sep [] = []"
| "str_join sep [x] = x"
| "str_join sep (x # y # ys) = x @ sep @ str_join sep (y # ys)"

text \<open>
  \<open>s.upper()\<close> on ASCII letters. The script applies it to \<open>cfg\<close> only, which is
  one of the two ASCII literals \<open>Debug\<close> and \<open>Release\<close>.
\<close>

definition char_upper :: "char \<Rightarrow> char" where
  "char_upper c =
     (let n = (of_char c :: nat) in if 97 \<le> n \<and> n \<le> 122 then char_of (n - 32) else c)"

definition str_upper :: "string \<Rightarrow> string" where
  "str_upper s = map char_upper s"

text \<open>\<open>s.split(sep)\<close> for a separator of one character: never an empty list.\<close>

fun split_sep :: "char \<Rightarrow> string \<Rightarrow> string list" where
  "split_sep c [] = [[]]"
| "split_sep c (x # xs) =
     (if x = c then [] # split_sep c xs
      else (let r = split_sep c xs in (x # hd r) # tl r))"

subsection \<open>The two regular expressions\<close>

text \<open>
  The classes \<open>\s\<close> and \<open>\d\<close> of Python's \<open>re\<close> on text, for code points below 256:
  \<open>\s\<close> is tab, line feed, vertical tab, form feed, carriage return, the four
  separators 28 to 31, space, next line (133) and no-break space (160); \<open>\d\<close> is
  \<open>0\<close> to \<open>9\<close>.
\<close>

definition is_space :: "char \<Rightarrow> bool" where
  "is_space c =
     (let n = (of_char c :: nat)
      in (9 \<le> n \<and> n \<le> 13) \<or> (28 \<le> n \<and> n \<le> 32) \<or> n = 133 \<or> n = 160)"

definition is_digit :: "char \<Rightarrow> bool" where
  "is_digit c = (let n = (of_char c :: nat) in 48 \<le> n \<and> n \<le> 57)"

definition is_version_char :: "char \<Rightarrow> bool" where
  "is_version_char c = (is_digit c \<or> c = CHR ''.'')"

text \<open>
  \<open>re.search(r'version\s*([\d.]+)', s)\<close>, group 1 of the leftmost match, \<open>None\<close>
  when there is no match. At a given start the match is forced: the literal, then all
  the white space, then the longest run of digits and dots, which must not be empty
  (giving back white space cannot help, since white space is neither digit nor dot).
\<close>

definition match_version_at :: "string \<Rightarrow> string option" where
  "match_version_at s =
     (if startswith s ''version''
      then (let grp = takeWhile is_version_char (dropWhile is_space (drop 7 s))
            in if grp = [] then None else Some grp)
      else None)"

fun re_search_version :: "string \<Rightarrow> string option" where
  "re_search_version [] = None"
| "re_search_version (c # cs) =
     (case match_version_at (c # cs) of
        Some g \<Rightarrow> Some g
      | None \<Rightarrow> re_search_version cs)"

text \<open>
  \<open>re.findall(r"-arch (\S+)", s)\<close>: the groups of the successive non-overlapping
  matches, scanning from the left. A match at a position is the literal \<open>-arch\<close>, one
  space character, and the longest non-empty run of characters that are not white
  space; the scan resumes right after the run. The function returns the group and the
  rest of the text.
\<close>

definition match_arch_at :: "string \<Rightarrow> (string \<times> string) option" where
  "match_arch_at s =
     (if startswith s ''-arch ''
      then (let rest = drop 6 s; grp = takeWhile (\<lambda>c. \<not> is_space c) rest
            in if grp = [] then None
               else Some (grp, dropWhile (\<lambda>c. \<not> is_space c) rest))
      else None)"

function findall_arch :: "string \<Rightarrow> string list" where
  "findall_arch [] = []"
| "findall_arch (c # cs) =
     (case match_arch_at (c # cs) of
        Some (g, rest) \<Rightarrow> g # findall_arch rest
      | None \<Rightarrow> findall_arch cs)"
  by pat_completeness auto
termination
proof (relation "measure length")
  show "wf (measure length)" by simp
next
  fix c cs x2 x y
  assume "match_arch_at (c # cs) = Some x2" and "(x, y) = x2"
  then have "y = dropWhile (\<lambda>c. \<not> is_space c) (drop 6 (c # cs))"
    by (auto simp: match_arch_at_def Let_def split: if_splits)
  moreover have "length (dropWhile (\<lambda>c. \<not> is_space c) (drop 6 (c # cs)))
                   \<le> length (drop 6 (c # cs))"
    by (rule length_dropWhile_le)
  ultimately show "(y, c # cs) \<in> measure length" by simp
next
  fix c cs
  show "(cs, c # cs) \<in> measure length" by simp
qed

subsection \<open>Versions (\<open>packaging.version\<close>)\<close>

text \<open>
  The script hands \<open>version.parse\<close> two kinds of text only: the literal \<open>3.1.0\<close>
  and group 1 of the regular expression above, a non-empty text of digits and dots.
  On such text \<open>Version\<close> accepts exactly the release form \<open>N(.N)*\<close> (every field
  between dots a non-empty run of digits). On any other text of digits and dots the
  library has two behaviours, and the host says which one it has: \<open>packaging\<close> before
  release 22 (vendored by setuptools before 66) returns a \<open>LegacyVersion\<close> of the
  text; from release 22 on, \<open>parse\<close> raises \<open>InvalidVersion\<close>.
\<close>

datatype error =
    RuntimeError string
  | OSError
  | CalledProcessError int "string list"
  | AttributeError
  | InvalidVersion string

datatype pversion = Version "nat list" | LegacyVersion string

fun nat_of_digits :: "nat \<Rightarrow> string \<Rightarrow> nat" where
  "nat_of_digits acc [] = acc"
| "nat_of_digits acc (c # cs) = nat_of_digits (10 * acc + (of_char c - 48)) cs"

definition version_parse :: "bool \<Rightarrow> string \<Rightarrow> error + pversion" where
  "version_parse legacy s =
     (let fields = split_sep (CHR ''.'') s
      in if list_all (\<lambda>f. f \<noteq> [] \<and> list_all is_digit f) fields
         then Inr (Version (map (nat_of_digits 0) fields))
         else if legacy then Inr (LegacyVersion s)
         else Inl (InvalidVersion s))"

text \<open>
  Versions compare by their keys, tuples that start with the epoch: 0 for a release,
  -1 for a legacy version, so that every legacy version is below every release. Two
  releases compare as the tuples of their numbers with the trailing zeros removed.
  Two legacy versions compare as tuples of texts: for a text of digits and dots, the
  non-empty runs of digits, each filled with zeros on the left to eight characters,
  without the trailing fields \<open>00000000\<close>, and the mark \<open>*final\<close> at the end.
  Tuples and texts compare as in Python: lexicographically, a proper prefix being
  smaller, characters by code point.
\<close>

fun tuple_lt :: "nat list \<Rightarrow> nat list \<Rightarrow> bool" where
  "tuple_lt [] [] = False"
| "tuple_lt [] (y # ys) = True"
| "tuple_lt (x # xs) [] = False"
| "tuple_lt (x # xs) (y # ys) = (x < y \<or> (x = y \<and> tuple_lt xs ys))"

fun str_lt :: "string \<Rightarrow> string \<Rightarrow> bool" where
  "str_lt [] [] = False"
| "str_lt [] (y # ys) = True"
| "str_lt (x # xs) [] = False"
| "str_lt (x # xs) (y # ys) =
     ((of_char x :: nat) < of_char y \<or> (x = y \<and> str_lt xs ys))"

fun str_tuple_lt :: "string list \<Rightarrow> string list \<Rightarrow> bool" where
  "str_tuple_lt [] [] = False"
| "str_tuple_lt [] (y # ys) = True"
| "str_tuple_lt (x # xs) [] = False"
| "str_tuple_lt (x # xs) (y # ys) = (str_lt x y \<or> (x = y \<and> str_tuple_lt xs ys))"

definition release_key :: "nat list \<Rightarrow> nat list" where
  "release_key r = rev (dropWhile (\<lambda>x. x = 0) (rev r))"

definition zfill8 :: "string \<Rightarrow> string" where
  "zfill8 s = replicate (8 - length s) (CHR ''0'') @ s"

definition legacy_key :: "string \<Rightarrow> string list" where
  "legacy_key s =
     rev (dropWhile (\<lambda>p. p = ''00000000'')
            (rev (map zfill8 (filter (\<lambda>f. f \<noteq> []) (split_sep (CHR ''.'') s)))))
     @ [''*final'']"

fun version_lt :: "pversion \<Rightarrow> pversion \<Rightarrow> bool" where
  "version_lt (Version a) (Version b) = tuple_lt (release_key a) (release_key b)"
| "version_lt (LegacyVersion s) (Version b) = True"
| "version_lt (Version a) (LegacyVersion t) = False"
| "version_lt (LegacyVersion s) (LegacyVersion t) = str_tuple_lt (legacy_key s) (legacy_key t)"

subsection \<open>\<open>os.path\<close>\<close>

text \<open>
  \<open>os.path\<close> is a different module on different hosts, so the host record carries
  the three functions the script calls. \<open>posixpath\<close> below is the module of every
  host that is not Windows, following CPython's \<open>posixpath.py\<close>.
\<close>

record path_module =
  pm_abspath :: "string \<Rightarrow> string \<Rightarrow> string"  \<comment> \<open>working directory, path\<close>
  pm_join :: "string \<Rightarrow> string list \<Rightarrow> string"
  pm_dirname :: "string \<Rightarrow> string"

definition isabs :: "string \<Rightarrow> bool" where
  "isabs p = startswith p ''/''"

definition posix_join2 :: "string \<Rightarrow> string \<Rightarrow> string" where
  "posix_join2 path b =
     (if startswith b ''/'' then b
      else if path = [] \<or> last path = CHR ''/'' then path @ b
      else path @ ''/'' @ b)"

definition posix_join :: "string \<Rightarrow> string list \<Rightarrow> string" where
  "posix_join a ps = foldl posix_join2 a ps"

definition initial_slashes :: "string \<Rightarrow> nat" where
  "initial_slashes p =
     (if startswith p ''/''
      then (if startswith p ''//'' \<and> \<not> startswith p ''///'' then 2 else 1)
      else 0)"

definition norm_step :: "nat \<Rightarrow> string list \<Rightarrow> string \<Rightarrow> string list" where
  "norm_step slashes new_comps part =
     (if part = [] \<or> part = ''.'' then new_comps
      else if part \<noteq> ''..'' \<or> (slashes = 0 \<and> new_comps = [])
              \<or> (new_comps \<noteq> [] \<and> last new_comps = ''..'')
      then new_comps @ [part]
      else if new_comps \<noteq> [] then butlast new_comps
      else new_comps)"

definition normpath :: "string \<Rightarrow> string" where
  "normpath p =
     (if p = [] then ''.''
      else (let slashes = initial_slashes p;
                comps = foldl (norm_step slashes) [] (split_sep (CHR ''/'') p);
                path = replicate slashes (CHR ''/'') @ str_join ''/'' comps
            in if path = [] then ''.'' else path))"

definition posix_abspath :: "string \<Rightarrow> string \<Rightarrow> string" where
  "posix_abspath cwd p = normpath (if isabs p then p else posix_join cwd [p])"

definition posix_dirname :: "string \<Rightarrow> string" where
  "posix_dirname p =
     (let head = rev (dropWhile (\<lambda>c. c \<noteq> CHR ''/'') (rev p))
      in if head \<noteq> [] \<and> head \<noteq> replicate (length head) (CHR ''/'')
         then rev (dropWhile (\<lambda>c. c = CHR ''/'') (rev head))
         else head)"

definition posixpath :: path_module where
  "posixpath = \<lparr>pm_abspath = posix_abspath, pm_join = posix_join, pm_dirname = posix_dirname\<rparr>"

subsection \<open>Host, world and external processes\<close>

text \<open>
  A call of \<open>subprocess\<close>: the argument vector, the \<open>cwd=\<close> argument and the
  \<open>env=\<close> argument, \<open>None\<close> where the call does not pass one (the child then
  inherits the working directory, respectively the environment, of the script).
\<close>

record invocation =
  argv :: "string list"
  inv_cwd :: "string option"
  inv_env :: "(string \<rightharpoonup> string) option"

text \<open>
  What a started process does: it cannot be started at all (\<open>OSError\<close> in Python), or
  it exits with a status, having written some text to its standard output.
\<close>

datatype proc_outcome = NotInvocable | Exited int string

record world =
  fs :: "string set"
  environ :: "string \<rightharpoonup> string"
  trace :: "(invocation \<times> proc_outcome) list"

record host =
  platform_system :: string  \<comment> \<open>\<open>platform.system()\<close>\<close>
  sys_platform :: string  \<comment> \<open>\<open>sys.platform\<close>\<close>
  sys_maxsize :: int  \<comment> \<open>\<open>sys.maxsize\<close>\<close>
  sys_executable :: string  \<comment> \<open>\<open>sys.executable\<close>\<close>
  getcwd :: string  \<comment> \<open>\<open>os.getcwd()\<close>\<close>
  os_path :: path_module  \<comment> \<open>\<open>os.path\<close>\<close>
  packaging_legacy :: bool  \<comment> \<open>\<open>version.parse\<close> falls back to \<open>LegacyVersion\<close>\<close>
  spawn :: "invocation \<Rightarrow> world \<Rightarrow> proc_outcome \<times> string set"
  may_mkdir :: "world \<Rightarrow> string \<Rightarrow> bool"

text \<open>
  Running a process appends the call and its outcome to the trace and replaces the set
  of existing paths by what the process leaves. The environment of the script is out of
  a child's reach.
\<close>

definition run_process :: "host \<Rightarrow> invocation \<Rightarrow> world \<Rightarrow> proc_outcome \<times> world" where
  "run_process h call w =
     (let (out, fs') = spawn h call w
      in (out, w\<lparr>fs := fs', trace := trace w @ [(call, out)]\<rparr>))"

text \<open>\<open>subprocess.check_output\<close>: the text written, an error for a status other than 0.\<close>

definition check_output :: "host \<Rightarrow> invocation \<Rightarrow> world \<Rightarrow> (error + string) \<times> world" where
  "check_output h call w =
     (case run_process h call w of
        (NotInvocable, w') \<Rightarrow> (Inl OSError, w')
      | (Exited rc out, w') \<Rightarrow>
          if rc = 0 then (Inr out, w') else (Inl (CalledProcessError rc (argv call)), w'))"

text \<open>\<open>subprocess.check_call\<close>: returns 0, an error for a status other than 0.\<close>

definition check_call :: "host \<Rightarrow> invocation \<Rightarrow> world \<Rightarrow> (error + int) \<times> world" where
  "check_call h call w =
     (case run_process h call w of
        (NotInvocable, w') \<Rightarrow> (Inl OSError, w')
      | (Exited rc out, w') \<Rightarrow>
          if rc = 0 then (Inr 0, w') else (Inl (CalledProcessError rc (argv call)), w'))"

text \<open>
  \<open>os.mkdir\<close> makes one directory and fails if the path exists or the host refuses.
  \<open>os.makedirs\<close> makes the missing ancestors too: every prefix of the path that ends
  before a separator, and the path itself.
\<close>

definition os_mkdir :: "host \<Rightarrow> string \<Rightarrow> world \<Rightarrow> (error + unit) \<times> world" where
  "os_mkdir h p w =
     (if p \<in> fs w \<or> \<not> may_mkdir h w p then (Inl OSError, w)
      else (Inr (), w\<lparr>fs := insert p (fs w)\<rparr>))"

definition ancestors :: "string \<Rightarrow> string list" where
  "ancestors p = [take i p. i \<leftarrow> [1..<length p], p ! i = CHR ''/'']"

definition os_makedirs :: "host \<Rightarrow> string \<Rightarrow> world \<Rightarrow> (error + unit) \<times> world" where
  "os_makedirs h p w =
     (if p \<in> fs w \<or> \<not> may_mkdir h w p then (Inl OSError, w)
      else (Inr (), w\<lparr>fs := fs w \<union> set (ancestors p) \<union> {p}\<rparr>))"

subsection \<open>\<open>CMakeExtension\<close>\<close>

text \<open>
  \<open>Extension.__init__(self, name, sources=[])\<close> stores the name and the list of
  sources; the constructor then sets \<open>sourcedir\<close>. The default of the parameter
  \<open>sourcedir\<close> is the empty text.
\<close>

record cmake_extension =
  ext_name :: string
  ext_sources :: "string list"
  sourcedir :: string

definition CMakeExtension :: "host \<Rightarrow> string \<Rightarrow> string \<Rightarrow> cmake_extension" where
  "CMakeExtension h name sourcedir_arg =
     \<lparr>ext_name = name, ext_sources = [],
      sourcedir = pm_abspath (os_path h) (getcwd h) sourcedir_arg\<rparr>"

subsection \<open>\<open>CMakeBuild\<close>\<close>

text \<open>
  The fields of the command object that the three methods read: the targets, the debug
  flag, the temporary build directory, the function \<open>get_ext_fullpath\<close> of the
  packaging system, and the version of the distribution.
\<close>

record cmake_build =
  extensions :: "cmake_extension list"
  debug :: bool
  build_temp :: string
  get_ext_fullpath :: "string \<Rightarrow> string"
  dist_version :: string  \<comment> \<open>\<open>self.distribution.get_version()\<close>\<close>

text \<open>\<open>install_dependencies\<close> (lines 95 to 105); it returns 0 or \<open>None\<close>.\<close>

definition dir_pybind11 :: "host \<Rightarrow> string" where
  "dir_pybind11 h = pm_join (os_path h) (getcwd h) [''pybind11'']"

definition git_clone :: "host \<Rightarrow> invocation" where
  "git_clone h =
     \<lparr>argv = [''git'', ''clone'', ''https://github.com/pybind/pybind11.git'', dir_pybind11 h],
      inv_cwd = None, inv_env = None\<rparr>"

definition git_submodule :: invocation where
  "git_submodule =
     \<lparr>argv = [''git'', ''submodule'', ''update'', ''--init'', ''--recursive''],
      inv_cwd = None, inv_env = None\<rparr>"

definition install_dependencies :: "host \<Rightarrow> world \<Rightarrow> (error + int option) \<times> world" where
  "install_dependencies h w =
     (if dir_pybind11 h \<in> fs w then (Inr (Some 0), w)
      else (case os_mkdir h (dir_pybind11 h) w of
              (Inl e, w1) \<Rightarrow> (Inl e, w1)
            | (Inr _, w1) \<Rightarrow>
                (case check_call h (git_clone h) w1 of
                   (Inl e, w2) \<Rightarrow> (Inl e, w2)
                 | (Inr _, w2) \<Rightarrow>
                     (case check_call h git_submodule w2 of
                        (Inl e, w3) \<Rightarrow> (Inl e, w3)
                      | (Inr _, w3) \<Rightarrow> (Inr None, w3)))))"

text \<open>
  \<open>build_extension\<close> (lines 107 to 141). The values it computes before it touches
  anything are definitions of their own, under the names of the script's variables.
  Truth of \<open>self.debug\<close> is the boolean \<open>debug\<close>.
\<close>

definition extdir :: "host \<Rightarrow> cmake_build \<Rightarrow> cmake_extension \<Rightarrow> string" where
  "extdir h self ext =
     pm_abspath (os_path h) (getcwd h)
       (pm_join (os_path h) (pm_dirname (os_path h) (get_ext_fullpath self (ext_name ext)))
          [''pyflagser'', ''modules''])"

definition cfg :: "cmake_build \<Rightarrow> string" where
  "cfg self = (if debug self then ''Debug'' else ''Release'')"

text \<open>
  \<open>cmake_args\<close> grows in three steps: the initial list (lines 110 and 111), what the
  branch on \<open>platform.system()\<close> appends (lines 116 to 123), and what the branch on
  \<open>sys.platform\<close> appends (lines 126 to 131).
\<close>

definition platform_cmake_args :: "host \<Rightarrow> cmake_build \<Rightarrow> cmake_extension \<Rightarrow> string list" where
  "platform_cmake_args h self ext =
     (if platform_system h = ''Windows''
      then [''-DCMAKE_LIBRARY_OUTPUT_DIRECTORY_'' @ str_upper (cfg self) @ ''=''
              @ extdir h self ext]
           @ (if sys_maxsize h > 2 ^ 32 then [''-A'', ''x64''] else [])
      else [''-DCMAKE_BUILD_TYPE='' @ cfg self])"

definition darwin_cmake_args :: "host \<Rightarrow> (string \<rightharpoonup> string) \<Rightarrow> string list" where
  "darwin_cmake_args h env =
     (if startswith (sys_platform h) ''darwin''
      then (let archs = findall_arch (case env ''ARCHFLAGS'' of None \<Rightarrow> [] | Some v \<Rightarrow> v)
            in if archs \<noteq> []
               then [''-DCMAKE_OSX_ARCHITECTURES='' @ str_join '';'' archs]
               else [])
      else [])"

definition cmake_args ::
  "host \<Rightarrow> cmake_build \<Rightarrow> (string \<rightharpoonup> string) \<Rightarrow> cmake_extension \<Rightarrow> string list" where
  "cmake_args h self env ext =
     [''-DCMAKE_LIBRARY_OUTPUT_DIRECTORY='' @ extdir h self ext,
      ''-DPYTHON_EXECUTABLE='' @ sys_executable h]
     @ platform_cmake_args h self ext
     @ darwin_cmake_args h env"

definition build_args :: "host \<Rightarrow> cmake_build \<Rightarrow> string list" where
  "build_args h self =
     [''--config'', cfg self]
     @ (if platform_system h = ''Windows'' then [''--'', ''/m''] else [''--'', ''-j2''])"

text \<open>
  The environment for the configure call: a copy of \<open>os.environ\<close> in which
  \<open>CXXFLAGS\<close> is the old value (empty if unset), a space, and the define
  \<open>-DVERSION_INFO=\"version\"\<close> with a backslash before each quote.
\<close>

definition build_env :: "cmake_build \<Rightarrow> (string \<rightharpoonup> string) \<Rightarrow> (string \<rightharpoonup> string)" where
  "build_env self env =
     env(''CXXFLAGS'' \<mapsto>
           (case env ''CXXFLAGS'' of None \<Rightarrow> [] | Some v \<Rightarrow> v)
           @ '' -DVERSION_INFO='' @ [CHR 0x5C, CHR 0x22] @ dist_version self
           @ [CHR 0x5C, CHR 0x22])"

definition configure_call ::
  "host \<Rightarrow> cmake_build \<Rightarrow> (string \<rightharpoonup> string) \<Rightarrow> cmake_extension \<Rightarrow> invocation" where
  "configure_call h self env ext =
     \<lparr>argv = [''cmake'', sourcedir ext] @ cmake_args h self env ext,
      inv_cwd = Some (build_temp self), inv_env = Some (build_env self env)\<rparr>"

definition compile_call :: "host \<Rightarrow> cmake_build \<Rightarrow> invocation" where
  "compile_call h self =
     \<lparr>argv = [''cmake'', ''--build'', ''.''] @ build_args h self,
      inv_cwd = Some (build_temp self), inv_env = None\<rparr>"

text \<open>Lines 136 and 137: the temporary build directory is made unless it exists.\<close>

definition ensure_build_temp :: "host \<Rightarrow> cmake_build \<Rightarrow> world \<Rightarrow> (error + unit) \<times> world" where
  "ensure_build_temp h self w =
     (if build_temp self \<in> fs w then (Inr (), w) else os_makedirs h (build_temp self) w)"

definition build_extension ::
  "host \<Rightarrow> cmake_build \<Rightarrow> cmake_extension \<Rightarrow> world \<Rightarrow> (error + unit) \<times> world" where
  "build_extension h self ext w =
     (let conf = configure_call h self (environ w) ext;
          comp_call = compile_call h self
      in case ensure_build_temp h self w of
           (Inl e, w1) \<Rightarrow> (Inl e, w1)
         | (Inr _, w1) \<Rightarrow>
             (case check_call h conf w1 of
                (Inl e, w2) \<Rightarrow> (Inl e, w2)
              | (Inr _, w2) \<Rightarrow>
                  (case check_call h comp_call w2 of
                     (Inl e, w3) \<Rightarrow> (Inl e, w3)
                   | (Inr _, w3) \<Rightarrow> (Inr (), w3))))"

text \<open>\<open>run\<close> (lines 76 to 93).\<close>

definition version_query :: invocation where
  "version_query = \<lparr>argv = [''cmake'', ''--version''], inv_cwd = None, inv_env = None\<rparr>"

definition msg_cmake_missing :: "cmake_build \<Rightarrow> string" where
  "msg_cmake_missing self =
     ''CMake must be installed to build the '' @ '' following extensions: ''
     @ str_join '' , '' (map ext_name (extensions self))"

definition msg_cmake_too_old :: string where
  "msg_cmake_too_old = ''CMake >= 3.1.0 is required on Windows''"

text \<open>
  Lines 84 to 88. The outcome of a process carries its output as text, so
  \<open>out.decode()\<close> is taken as done. \<open>re.search\<close> returns \<open>None\<close> when nothing
  matches, and \<open>.group\<close> on \<open>None\<close> raises \<open>AttributeError\<close>. The right operand
  of the comparison is parsed only when the left one has been parsed.
\<close>

definition check_cmake_version :: "host \<Rightarrow> string \<Rightarrow> error + unit" where
  "check_cmake_version h out =
     (if platform_system h = ''Windows''
      then (case re_search_version out of
              None \<Rightarrow> Inl AttributeError
            | Some g \<Rightarrow>
                (case version_parse (packaging_legacy h) g of
                   Inl e \<Rightarrow> Inl e
                 | Inr cmake_version \<Rightarrow>
                     (case version_parse (packaging_legacy h) ''3.1.0'' of
                        Inl e \<Rightarrow> Inl e
                      | Inr minimum \<Rightarrow>
                          if version_lt cmake_version minimum
                          then Inl (RuntimeError msg_cmake_too_old)
                          else Inr ())))
      else Inr ())"

fun build_extensions ::
  "host \<Rightarrow> cmake_build \<Rightarrow> cmake_extension list \<Rightarrow> world \<Rightarrow> (error + unit) \<times> world" where
  "build_extensions h self [] w = (Inr (), w)"
| "build_extensions h self (ext # exts) w =
     (case build_extension h self ext w of
        (Inl e, w') \<Rightarrow> (Inl e, w')
      | (Inr _, w') \<Rightarrow> build_extensions h self exts w')"

definition run :: "host \<Rightarrow> cmake_build \<Rightarrow> world \<Rightarrow> (error + unit) \<times> world" where
  "run h self w =
     (case check_output h version_query w of
        (Inl OSError, w1) \<Rightarrow> (Inl (RuntimeError (msg_cmake_missing self)), w1)
      | (Inl e, w1) \<Rightarrow> (Inl e, w1)
      | (Inr out, w1) \<Rightarrow>
          (case check_cmake_version h out of
             Inl e \<Rightarrow> (Inl e, w1)
           | Inr _ \<Rightarrow>
               (case install_dependencies h w1 of
                  (Inl e, w2) \<Rightarrow> (Inl e, w2)
                | (Inr _, w2) \<Rightarrow> build_extensions h self (extensions self) w2)))"

subsection \<open>Notions used in the statements\<close>

text \<open>The processes started between a world and a later one, in order.\<close>

definition started :: "world \<Rightarrow> world \<Rightarrow> (invocation \<times> proc_outcome) list" where
  "started w w' = drop (length (trace w)) (trace w')"

text \<open>
  The environment a child process sees: the \<open>env=\<close> argument of the call, and the
  environment of the script when the call does not pass one.
\<close>

definition child_env :: "world \<Rightarrow> invocation \<Rightarrow> (string \<rightharpoonup> string)" where
  "child_env w call = (case inv_env call of None \<Rightarrow> environ w | Some e \<Rightarrow> e)"

text \<open>
  The words of a text, as \<open>s.split()\<close> gives them: the maximal runs of characters that
  are not white space. The first argument is the word read so far.
\<close>

fun split_words :: "string \<Rightarrow> string \<Rightarrow> string list" where
  "split_words cur [] = (if cur = [] then [] else [cur])"
| "split_words cur (c # cs) =
     (if is_space c
      then (if cur = [] then split_words [] cs else cur # split_words [] cs)
      else split_words (cur @ [c]) cs)"

definition str_words :: "string \<Rightarrow> string list" where
  "str_words s = split_words [] s"

subsection \<open>Example hosts, builds and worlds\<close>

text \<open>
  Concrete values on which the theorems below are tried. \<open>tool_spawn\<close> plays the
  external tools: cmake is absent or reports a version, its configure step exits with a
  given status, everything else succeeds; no process changes which paths exist.
\<close>

definition tool_spawn ::
  "string option \<Rightarrow> int \<Rightarrow> invocation \<Rightarrow> world \<Rightarrow> proc_outcome \<times> string set" where
  "tool_spawn cmake_version configure_status call w =
     (if take 1 (argv call) = [''cmake'']
      then (case cmake_version of
              None \<Rightarrow> (NotInvocable, fs w)
            | Some v \<Rightarrow>
                if argv call = [''cmake'', ''--version'']
                then (Exited 0 (''cmake version '' @ v), fs w)
                else if take 2 (argv call) = [''cmake'', ''--build'']
                then (Exited 0 [], fs w)
                else (Exited configure_status [], fs w))
      else (Exited 0 [], fs w))"

definition linux_host :: host where
  "linux_host =
     \<lparr>platform_system = ''Linux'', sys_platform = ''linux'', sys_maxsize = 2 ^ 63 - 1,
      sys_executable = ''/usr/bin/python3'', getcwd = ''/repo'', os_path = posixpath,
      packaging_legacy = False,
      spawn = tool_spawn (Some ''3.22.1'') 0, may_mkdir = (\<lambda>w p. True)\<rparr>"

definition failing_configure_host :: host where
  "failing_configure_host = linux_host\<lparr>spawn := tool_spawn (Some ''3.22.1'') 2\<rparr>"

definition no_cmake_host :: host where
  "no_cmake_host = linux_host\<lparr>spawn := tool_spawn None 0\<rparr>"

definition mac_host :: host where
  "mac_host = linux_host\<lparr>platform_system := ''Darwin'', sys_platform := ''darwin''\<rparr>"

text \<open>
  On the paths of the Windows example these three functions give what \<open>ntpath\<close>
  gives there: the paths are absolute and normal already, and the separator is the
  backslash.
\<close>

definition windows_paths :: path_module where
  "windows_paths =
     \<lparr>pm_abspath = (\<lambda>cwd p. p),
      pm_join = (\<lambda>a ps. foldl (\<lambda>x y. x @ [CHR 0x5C] @ y) a ps),
      pm_dirname = (\<lambda>p. rev (tl (dropWhile (\<lambda>c. c \<noteq> CHR 0x5C) (rev p))))\<rparr>"

definition windows_host :: host where
  "windows_host =
     \<lparr>platform_system = ''Windows'', sys_platform = ''win32'', sys_maxsize = 2 ^ 63 - 1,
      sys_executable = ''C:'' @ [CHR 0x5C] @ ''Python38'' @ [CHR 0x5C] @ ''python.exe'',
      getcwd = ''C:'' @ [CHR 0x5C] @ ''repo'', os_path = windows_paths,
      packaging_legacy = False,
      spawn = tool_spawn (Some ''3.0.2'') 0, may_mkdir = (\<lambda>w p. True)\<rparr>"

definition windows32_host :: host where
  "windows32_host = windows_host\<lparr>sys_maxsize := 2 ^ 31 - 1\<rparr>"

definition pyflagser_ext :: cmake_extension where
  "pyflagser_ext = \<lparr>ext_name = ''pyflagser'', ext_sources = [], sourcedir = ''/repo''\<rparr>"

definition example_fullpath :: "string \<Rightarrow> string" where
  "example_fullpath name = ''build/lib.linux-x86_64-3.8/'' @ name @ ''.so''"

definition release_build :: cmake_build where
  "release_build =
     \<lparr>extensions = [pyflagser_ext], debug = False,
      build_temp = ''build/temp.linux-x86_64-3.8'',
      get_ext_fullpath = example_fullpath, dist_version = ''0.4.5''\<rparr>"

definition debug_build :: cmake_build where
  "debug_build = release_build\<lparr>debug := True\<rparr>"

definition windows_fullpath :: "string \<Rightarrow> string" where
  "windows_fullpath name =
     ''C:'' @ [CHR 0x5C] @ ''repo'' @ [CHR 0x5C] @ ''build'' @ [CHR 0x5C] @ name @ ''.pyd''"

definition windows_build :: cmake_build where
  "windows_build = debug_build\<lparr>get_ext_fullpath := windows_fullpath\<rparr>"

definition fresh_world :: world where
  "fresh_world = \<lparr>fs = {''/repo''}, environ = [''PATH'' \<mapsto> ''/usr/bin''], trace = []\<rparr>"

definition double_dash_env :: "string \<rightharpoonup> string" where
  "double_dash_env = [''ARCHFLAGS'' \<mapsto> ''--arch x86_64'']"

definition populated_world :: world where
  "populated_world = fresh_world\<lparr>fs := {''/repo'', ''/repo/pybind11''}\<rparr>"

section \<open>Configuration arguments\<close>

lemma str_upper_Debug: "str_upper ''Debug'' = ''DEBUG''"
  by code_simp

lemma str_upper_Release: "str_upper ''Release'' = ''RELEASE''"
  by code_simp

lemma str_upper_cfg: "str_upper (cfg self) = (if debug self then ''DEBUG'' else ''RELEASE'')"
  by (simp add: cfg_def str_upper_Debug str_upper_Release)

lemma extdir_linux:
  "extdir linux_host release_build pyflagser_ext
     = ''/repo/build/lib.linux-x86_64-3.8/pyflagser/modules''"
  by (simp add: extdir_def linux_host_def release_build_def pyflagser_ext_def
      example_fullpath_def posixpath_def posix_abspath_def isabs_def startswith_def
      posix_join_def posix_join2_def normpath_def initial_slashes_def norm_step_def
      posix_dirname_def)

lemma extdir_debug: "extdir h (self\<lparr>debug := b\<rparr>) ext = extdir h self ext"
  by (simp add: extdir_def)

lemma extdir_platform:
  "extdir (h\<lparr>platform_system := a, sys_platform := b\<rparr>) self ext = extdir h self ext"
  by (simp add: extdir_def)

text \<open>
  C1. The mode is \<open>Debug\<close> exactly when the debug flag is set and \<open>Release\<close>
  otherwise. The compile call passes it after \<open>--config\<close>; the configure call
  carries it as the build-type directive, or on Windows, in upper case, as the suffix
  of the name of the second output-directory directive.
\<close>

theorem configuration_mode:
  "cfg self = (if debug self then ''Debug'' else ''Release'')
   \<and> (cfg self = ''Debug'') = debug self
   \<and> (cfg self = ''Release'') = (\<not> debug self)
   \<and> take 5 (argv (compile_call h self))
       = [''cmake'', ''--build'', ''.'', ''--config'', cfg self]
   \<and> (if platform_system h = ''Windows''
       then ''-DCMAKE_LIBRARY_OUTPUT_DIRECTORY_''
              @ (if debug self then ''DEBUG'' else ''RELEASE'') @ ''='' @ extdir h self ext
       else ''-DCMAKE_BUILD_TYPE='' @ (if debug self then ''Debug'' else ''Release''))
         \<in> set (argv (configure_call h self env ext))"
  by (simp add: cfg_def compile_call_def build_args_def configure_call_def cmake_args_def
      platform_cmake_args_def str_upper_Debug str_upper_Release)

theorem configuration_mode_witness:
  "cfg debug_build = ''Debug'' \<and> cfg release_build = ''Release''
   \<and> take 5 (argv (compile_call linux_host debug_build))
       = [''cmake'', ''--build'', ''.'', ''--config'', ''Debug'']
   \<and> ''-DCMAKE_BUILD_TYPE=Release''
       \<in> set (argv (configure_call linux_host release_build Map.empty pyflagser_ext))
   \<and> ''-DCMAKE_LIBRARY_OUTPUT_DIRECTORY_DEBUG='' @ extdir windows_host windows_build pyflagser_ext
       \<in> set (argv (configure_call windows_host windows_build Map.empty pyflagser_ext))"
  using configuration_mode [of debug_build linux_host pyflagser_ext Map.empty]
    configuration_mode [of release_build linux_host pyflagser_ext Map.empty]
    configuration_mode [of windows_build windows_host pyflagser_ext Map.empty]
  by (simp add: debug_build_def release_build_def windows_build_def linux_host_def
      windows_host_def)

subsection \<open>What each kind of argument looks like\<close>

lemma no_build_type_in_base:
  "filter (\<lambda>a. startswith a ''-DCMAKE_BUILD_TYPE='')
     [''-DCMAKE_LIBRARY_OUTPUT_DIRECTORY='' @ d, ''-DPYTHON_EXECUTABLE='' @ e] = []"
  by (simp add: startswith_def)

lemma no_mode_directory_in_base:
  "filter (\<lambda>a. startswith a ''-DCMAKE_LIBRARY_OUTPUT_DIRECTORY_'')
     [''-DCMAKE_LIBRARY_OUTPUT_DIRECTORY='' @ d, ''-DPYTHON_EXECUTABLE='' @ e] = []"
  by (simp add: startswith_def)

lemma no_architectures_in_base:
  "filter (\<lambda>a. startswith a ''-DCMAKE_OSX_ARCHITECTURES='')
     [''-DCMAKE_LIBRARY_OUTPUT_DIRECTORY='' @ d, ''-DPYTHON_EXECUTABLE='' @ e] = []"
  by (simp add: startswith_def)

lemma darwin_cmake_args_cases:
  "darwin_cmake_args h env = []
   \<or> (\<exists>v. darwin_cmake_args h env = [''-DCMAKE_OSX_ARCHITECTURES='' @ v])"
  by (simp add: darwin_cmake_args_def Let_def)

lemma darwin_no_build_type:
  "filter (\<lambda>a. startswith a ''-DCMAKE_BUILD_TYPE='') (darwin_cmake_args h env) = []"
  using darwin_cmake_args_cases [of h env] by (auto simp: startswith_def)

lemma darwin_no_mode_directory:
  "filter (\<lambda>a. startswith a ''-DCMAKE_LIBRARY_OUTPUT_DIRECTORY_'') (darwin_cmake_args h env) = []"
  using darwin_cmake_args_cases [of h env] by (auto simp: startswith_def)

lemma darwin_no_A: "''-A'' \<notin> set (darwin_cmake_args h env)"
  using darwin_cmake_args_cases [of h env] by auto

lemma platform_no_architectures:
  "filter (\<lambda>a. startswith a ''-DCMAKE_OSX_ARCHITECTURES='') (platform_cmake_args h self ext) = []"
  by (simp add: platform_cmake_args_def startswith_def)

lemma pointer_width:
  assumes "0 < k"
  shows "((2::int) ^ 32 < 2 ^ (8 * k - 1) - 1) = (32 < 8 * k)"
proof (cases "k \<le> 4")
  case True
  then have "8 * k - 1 \<le> 31" by simp
  then have "(2::int) ^ (8 * k - 1) \<le> 2 ^ 31" by (rule power_increasing) simp
  with True show ?thesis by simp
next
  case False
  then have "39 \<le> 8 * k - 1" by simp
  then have "(2::int) ^ 39 \<le> 2 ^ (8 * k - 1)" by (rule power_increasing) simp
  with False show ?thesis by simp
qed

text \<open>
  C2. On Windows the platform branch appends the output-directory directive whose name
  ends in the upper-case mode, and then \<open>-A x64\<close> exactly when \<open>sys.maxsize\<close>
  exceeds \<open>2 ^ 32\<close>, which for a host with pointers of \<open>8 * k\<close> bits
  (\<open>sys.maxsize = 2 ^ (8 * k - 1) - 1\<close>) means a pointer wider than 32 bits; no
  build-type directive is passed. On any other platform the branch appends the
  build-type directive with the mode, the only such directive in the whole list, and
  the list has neither a mode-suffixed output-directory directive nor \<open>-A\<close>.
\<close>

theorem platform_specific_arguments:
  "if platform_system h = ''Windows''
   then platform_cmake_args h self ext
          = (''-DCMAKE_LIBRARY_OUTPUT_DIRECTORY_'' @ str_upper (cfg self) @ ''=''
               @ extdir h self ext)
            # (if 2 ^ 32 < sys_maxsize h then [''-A'', ''x64''] else [])
        \<and> str_upper (cfg self) = (if debug self then ''DEBUG'' else ''RELEASE'')
        \<and> filter (\<lambda>a. startswith a ''-DCMAKE_LIBRARY_OUTPUT_DIRECTORY_'')
             (cmake_args h self env ext)
            = [''-DCMAKE_LIBRARY_OUTPUT_DIRECTORY_'' @ str_upper (cfg self) @ ''=''
                 @ extdir h self ext]
        \<and> (\<forall>k. 0 < k \<and> sys_maxsize h = 2 ^ (8 * k - 1) - 1 \<longrightarrow>
              (''-A'' \<in> set (cmake_args h self env ext)) = (32 < 8 * k))
        \<and> filter (\<lambda>a. startswith a ''-DCMAKE_BUILD_TYPE='') (cmake_args h self env ext) = []
   else platform_cmake_args h self ext = [''-DCMAKE_BUILD_TYPE='' @ cfg self]
        \<and> filter (\<lambda>a. startswith a ''-DCMAKE_BUILD_TYPE='') (cmake_args h self env ext)
            = [''-DCMAKE_BUILD_TYPE='' @ cfg self]
        \<and> filter (\<lambda>a. startswith a ''-DCMAKE_LIBRARY_OUTPUT_DIRECTORY_'')
             (cmake_args h self env ext) = []
        \<and> ''-A'' \<notin> set (cmake_args h self env ext)"
proof (cases "platform_system h = ''Windows''")
  case True
  have p: "platform_cmake_args h self ext
          = (''-DCMAKE_LIBRARY_OUTPUT_DIRECTORY_'' @ str_upper (cfg self) @ ''=''
               @ extdir h self ext)
            # (if 2 ^ 32 < sys_maxsize h then [''-A'', ''x64''] else [])"
    using True by (simp add: platform_cmake_args_def)
  have m: "filter (\<lambda>a. startswith a ''-DCMAKE_LIBRARY_OUTPUT_DIRECTORY_'')
             (cmake_args h self env ext)
            = [''-DCMAKE_LIBRARY_OUTPUT_DIRECTORY_'' @ str_upper (cfg self) @ ''=''
                 @ extdir h self ext]"
    unfolding cmake_args_def filter_append no_mode_directory_in_base darwin_no_mode_directory p
    by (simp add: startswith_def)
  have a: "(''-A'' \<in> set (cmake_args h self env ext)) = (2 ^ 32 < sys_maxsize h)"
    using darwin_no_A [of h env] by (simp add: cmake_args_def p)
  have b: "filter (\<lambda>a. startswith a ''-DCMAKE_BUILD_TYPE='') (cmake_args h self env ext) = []"
    unfolding cmake_args_def filter_append no_build_type_in_base darwin_no_build_type p
    by (simp add: startswith_def)
  have w: "\<forall>k. 0 < k \<and> sys_maxsize h = 2 ^ (8 * k - 1) - 1 \<longrightarrow>
              (''-A'' \<in> set (cmake_args h self env ext)) = (32 < 8 * k)"
  proof (intro allI impI)
    fix k :: nat
    assume k: "0 < k \<and> sys_maxsize h = 2 ^ (8 * k - 1) - 1"
    then have "(2 ^ 32 < sys_maxsize h) = (32 < 8 * k)"
      using pointer_width [of k] by (simp only:)
    then show "(''-A'' \<in> set (cmake_args h self env ext)) = (32 < 8 * k)"
      by (simp only: a)
  qed
  show ?thesis
    unfolding if_P [OF True] by (intro conjI p m w b str_upper_cfg)
next
  case False
  have p: "platform_cmake_args h self ext = [''-DCMAKE_BUILD_TYPE='' @ cfg self]"
    using False by (simp add: platform_cmake_args_def)
  have b: "filter (\<lambda>a. startswith a ''-DCMAKE_BUILD_TYPE='') (cmake_args h self env ext)
            = [''-DCMAKE_BUILD_TYPE='' @ cfg self]"
    unfolding cmake_args_def filter_append no_build_type_in_base darwin_no_build_type p
    by (simp add: startswith_def)
  have m: "filter (\<lambda>a. startswith a ''-DCMAKE_LIBRARY_OUTPUT_DIRECTORY_'')
             (cmake_args h self env ext) = []"
    unfolding cmake_args_def filter_append no_mode_directory_in_base darwin_no_mode_directory p
    by (simp add: startswith_def)
  have a: "''-A'' \<notin> set (cmake_args h self env ext)"
    using darwin_no_A [of h env] by (simp add: cmake_args_def p)
  show ?thesis
    using False p b m a by simp
qed

theorem platform_specific_arguments_witness:
  "platform_cmake_args windows_host windows_build pyflagser_ext
     = [''-DCMAKE_LIBRARY_OUTPUT_DIRECTORY_DEBUG=''
          @ extdir windows_host windows_build pyflagser_ext, ''-A'', ''x64'']
   \<and> ''-A'' \<in> set (cmake_args windows_host windows_build Map.empty pyflagser_ext)
   \<and> platform_cmake_args windows32_host windows_build pyflagser_ext
     = [''-DCMAKE_LIBRARY_OUTPUT_DIRECTORY_DEBUG=''
          @ extdir windows32_host windows_build pyflagser_ext]
   \<and> ''-A'' \<notin> set (cmake_args windows32_host windows_build Map.empty pyflagser_ext)
   \<and> platform_cmake_args linux_host release_build pyflagser_ext
     = [''-DCMAKE_BUILD_TYPE=Release'']
   \<and> filter (\<lambda>a. startswith a ''-DCMAKE_LIBRARY_OUTPUT_DIRECTORY_'')
        (cmake_args linux_host release_build Map.empty pyflagser_ext) = []"
proof -
  have sw: "platform_system windows_host = ''Windows''"
    "platform_system windows32_host = ''Windows''"
    by (simp_all add: windows_host_def windows32_host_def)
  have sl: "platform_system linux_host \<noteq> ''Windows''"
    by (simp add: linux_host_def)
  have up: "str_upper (cfg windows_build) = ''DEBUG''"
    by (simp add: str_upper_cfg windows_build_def debug_build_def)
  note t64 = platform_specific_arguments [of windows_host windows_build pyflagser_ext
      Map.empty, unfolded if_P [OF sw(1)]]
  note t32 = platform_specific_arguments [of windows32_host windows_build pyflagser_ext
      Map.empty, unfolded if_P [OF sw(2)]]
  note tl = platform_specific_arguments [of linux_host release_build pyflagser_ext
      Map.empty, unfolded if_not_P [OF sl]]
  have a: "platform_cmake_args windows_host windows_build pyflagser_ext
     = [''-DCMAKE_LIBRARY_OUTPUT_DIRECTORY_DEBUG=''
          @ extdir windows_host windows_build pyflagser_ext, ''-A'', ''x64'']"
    using t64 by (simp add: up) (simp add: windows_host_def)
  have "(0::nat) < 8 \<and> sys_maxsize windows_host = 2 ^ (8 * 8 - 1) - 1"
    by (simp add: windows_host_def)
  with t64 have "(''-A'' \<in> set (cmake_args windows_host windows_build Map.empty pyflagser_ext))
      = ((32::nat) < 8 * 8)"
    by blast
  then have b: "''-A'' \<in> set (cmake_args windows_host windows_build Map.empty pyflagser_ext)"
    by simp
  have c: "platform_cmake_args windows32_host windows_build pyflagser_ext
     = [''-DCMAKE_LIBRARY_OUTPUT_DIRECTORY_DEBUG=''
          @ extdir windows32_host windows_build pyflagser_ext]"
    using t32 by (simp add: up) (simp add: windows32_host_def windows_host_def)
  have "(0::nat) < 4 \<and> sys_maxsize windows32_host = 2 ^ (8 * 4 - 1) - 1"
    by (simp add: windows32_host_def windows_host_def)
  with t32 have "(''-A'' \<in> set (cmake_args windows32_host windows_build Map.empty pyflagser_ext))
      = ((32::nat) < 8 * 4)"
    by blast
  then have d: "''-A'' \<notin> set (cmake_args windows32_host windows_build Map.empty pyflagser_ext)"
    by simp
  have e: "platform_cmake_args linux_host release_build pyflagser_ext
     = [''-DCMAKE_BUILD_TYPE=Release'']"
    using tl by (simp add: cfg_def release_build_def)
  have f: "filter (\<lambda>a. startswith a ''-DCMAKE_LIBRARY_OUTPUT_DIRECTORY_'')
        (cmake_args linux_host release_build Map.empty pyflagser_ext) = []"
    using tl by blast
  show ?thesis by (intro conjI a b c d e f)
qed

text \<open>
  C3. For the target \<open>pyflagser\<close> with source directory \<open>/repo\<close>, a release build on
  a host that is neither Windows nor macOS: the configure arguments are the
  library-output directive, the interpreter directive and \<open>-DCMAKE_BUILD_TYPE=Release\<close>,
  in this order and nothing else; the compile call ends with the separator \<open>--\<close>
  followed by the single flag \<open>-j2\<close>.
\<close>

theorem release_build_elsewhere:
  assumes "platform_system h \<noteq> ''Windows''"
    and "\<not> startswith (sys_platform h) ''darwin''"
    and "\<not> debug self"
  shows "cmake_args h self env pyflagser_ext
           = [''-DCMAKE_LIBRARY_OUTPUT_DIRECTORY='' @ extdir h self pyflagser_ext,
              ''-DPYTHON_EXECUTABLE='' @ sys_executable h,
              ''-DCMAKE_BUILD_TYPE=Release'']
         \<and> argv (configure_call h self env pyflagser_ext)
           = [''cmake'', ''/repo'',
              ''-DCMAKE_LIBRARY_OUTPUT_DIRECTORY='' @ extdir h self pyflagser_ext,
              ''-DPYTHON_EXECUTABLE='' @ sys_executable h,
              ''-DCMAKE_BUILD_TYPE=Release'']
         \<and> argv (compile_call h self)
           = [''cmake'', ''--build'', ''.'', ''--config'', ''Release'', ''--'', ''-j2'']
         \<and> build_args h self = [''--config'', ''Release''] @ [''--'', ''-j2'']"
  using assms
  by (simp add: cmake_args_def platform_cmake_args_def darwin_cmake_args_def cfg_def
      configure_call_def compile_call_def build_args_def pyflagser_ext_def)

theorem release_build_elsewhere_witness:
  "cmake_args linux_host release_build (environ fresh_world) pyflagser_ext
     = [''-DCMAKE_LIBRARY_OUTPUT_DIRECTORY=/repo/build/lib.linux-x86_64-3.8/pyflagser/modules'',
        ''-DPYTHON_EXECUTABLE=/usr/bin/python3'',
        ''-DCMAKE_BUILD_TYPE=Release'']
   \<and> argv (compile_call linux_host release_build)
     = [''cmake'', ''--build'', ''.'', ''--config'', ''Release'', ''--'', ''-j2'']"
proof -
  have "platform_system linux_host \<noteq> ''Windows''"
    and "\<not> startswith (sys_platform linux_host) ''darwin''"
    and "\<not> debug release_build"
    by (simp_all add: linux_host_def release_build_def startswith_def)
  from release_build_elsewhere [OF this, of "environ fresh_world"]
  show ?thesis
    by (simp add: extdir_linux) (simp add: linux_host_def)
qed

subsection \<open>The architecture list of macOS\<close>

lemma startswith_append: "startswith s p \<Longrightarrow> s = p @ drop (length p) s"
  unfolding startswith_def by (metis append_take_drop_id)

lemma match_arch_at_Some:
  "match_arch_at s = Some (g, rest)
   \<Longrightarrow> \<exists>c post. s = ''-arch '' @ c # post \<and> \<not> is_space c"
proof -
  assume a: "match_arch_at s = Some (g, rest)"
  then have st: "startswith s ''-arch ''"
    and tw: "takeWhile (\<lambda>c. \<not> is_space c) (drop 6 s) \<noteq> []"
    by (auto simp: match_arch_at_def Let_def split: if_splits)
  from tw obtain c post where d: "drop 6 s = c # post" and c: "\<not> is_space c"
    by (cases "drop 6 s") (auto split: if_splits)
  have "length ''-arch '' = 6" by simp
  with startswith_append [OF st] have "s = ''-arch '' @ drop 6 s"
    by (simp only:)
  then have "s = ''-arch '' @ c # post"
    by (simp only: d)
  with c show ?thesis by blast
qed

lemma match_arch_at_marker:
  "\<not> is_space c \<Longrightarrow> match_arch_at (''-arch '' @ c # post) \<noteq> None"
  by (simp add: match_arch_at_def startswith_def)

lemma findall_arch_found:
  "\<not> is_space c \<Longrightarrow> findall_arch (pre @ ''-arch '' @ c # post) \<noteq> []"
proof (induction pre)
  case Nil
  from match_arch_at_marker [OF Nil] obtain g rest
    where "match_arch_at (''-arch '' @ c # post) = Some (g, rest)"
    by fastforce
  then show ?case by simp
next
  case (Cons p pre)
  show ?case
  proof (cases "match_arch_at (p # pre @ ''-arch '' @ c # post)")
    case None
    with Cons show ?thesis by simp
  next
    case (Some a)
    then show ?thesis by (cases a) simp
  qed
qed

text \<open>
  \<open>findall\<close> finds something exactly when the text \<open>-arch\<close>, one space and a
  character that is not white space occur in a row somewhere in the value.
\<close>

lemma findall_arch_empty:
  "(findall_arch s = [])
     = (\<not> (\<exists>pre c post. s = pre @ ''-arch '' @ c # post \<and> \<not> is_space c))"
proof
  assume e: "findall_arch s = []"
  show "\<not> (\<exists>pre c post. s = pre @ ''-arch '' @ c # post \<and> \<not> is_space c)"
  proof
    assume "\<exists>pre c post. s = pre @ ''-arch '' @ c # post \<and> \<not> is_space c"
    then obtain pre c post where "s = pre @ ''-arch '' @ c # post" and "\<not> is_space c"
      by blast
    with findall_arch_found [of c pre post] e show False by simp
  qed
next
  assume n: "\<not> (\<exists>pre c post. s = pre @ ''-arch '' @ c # post \<and> \<not> is_space c)"
  have "findall_arch t \<noteq> []
      \<Longrightarrow> \<exists>pre c post. t = pre @ ''-arch '' @ c # post \<and> \<not> is_space c" for t
  proof (induction t rule: findall_arch.induct)
    case 1
    then show ?case by simp
  next
    case (2 x xs)
    show ?case
    proof (cases "match_arch_at (x # xs)")
      case None
      with 2 obtain pre c post where "xs = pre @ ''-arch '' @ c # post" and "\<not> is_space c"
        by auto
      then have "x # xs = (x # pre) @ ''-arch '' @ c # post \<and> \<not> is_space c"
        by simp
      then show ?thesis by blast
    next
      case (Some a)
      obtain g rest where "a = (g, rest)" by (cases a)
      with Some obtain c post where "x # xs = ''-arch '' @ c # post" and "\<not> is_space c"
        using match_arch_at_Some by blast
      then have "x # xs = [] @ ''-arch '' @ c # post \<and> \<not> is_space c"
        by simp
      then show ?thesis by blast
    qed
  qed
  with n show "findall_arch s = []" by blast
qed

lemma findall_arch_two: "findall_arch ''-arch x86_64 -arch arm64'' = [''x86_64'', ''arm64'']"
  by (simp add: match_arch_at_def startswith_def is_space_def)

lemma architectures_of_cmake_args:
  "filter (\<lambda>a. startswith a ''-DCMAKE_OSX_ARCHITECTURES='') (cmake_args h self env ext)
     = filter (\<lambda>a. startswith a ''-DCMAKE_OSX_ARCHITECTURES='') (darwin_cmake_args h env)"
  unfolding cmake_args_def filter_append no_architectures_in_base platform_no_architectures
  by simp

lemma darwin_all_architectures:
  "filter (\<lambda>a. startswith a ''-DCMAKE_OSX_ARCHITECTURES='') (darwin_cmake_args h env)
     = darwin_cmake_args h env"
  using darwin_cmake_args_cases [of h env] by (auto simp: startswith_def)

text \<open>
  C4, as the code has it. On a macOS host (\<open>sys.platform\<close> starts with \<open>darwin\<close>)
  the architecture directives of the whole list are what the last step appends. With
  \<open>ARCHFLAGS\<close> set to \<open>-arch x86_64 -arch arm64\<close> that is the one directive
  \<open>-DCMAKE_OSX_ARCHITECTURES=x86_64;arm64\<close>. With \<open>ARCHFLAGS\<close> unset or empty
  nothing is appended. For any value, nothing is appended exactly when the value has no
  occurrence of the text \<open>-arch\<close>, one space and a character that is not white space
  in a row; whether \<open>-arch\<close> stands there as a word of its own does not matter.
\<close>

theorem macos_architectures:
  assumes "startswith (sys_platform h) ''darwin''"
  shows "filter (\<lambda>a. startswith a ''-DCMAKE_OSX_ARCHITECTURES='') (cmake_args h self env ext)
           = darwin_cmake_args h env
         \<and> (env ''ARCHFLAGS'' = Some ''-arch x86_64 -arch arm64'' \<longrightarrow>
              darwin_cmake_args h env = [''-DCMAKE_OSX_ARCHITECTURES=x86_64;arm64''])
         \<and> (env ''ARCHFLAGS'' = None \<or> env ''ARCHFLAGS'' = Some [] \<longrightarrow>
              darwin_cmake_args h env = [])
         \<and> (\<forall>v. env ''ARCHFLAGS'' = Some v \<longrightarrow>
              (darwin_cmake_args h env = [])
                = (\<not> (\<exists>pre c post. v = pre @ ''-arch '' @ c # post \<and> \<not> is_space c)))"
proof (intro conjI impI allI)
  show "filter (\<lambda>a. startswith a ''-DCMAKE_OSX_ARCHITECTURES='') (cmake_args h self env ext)
      = darwin_cmake_args h env"
    by (simp only: architectures_of_cmake_args darwin_all_architectures)
next
  assume "env ''ARCHFLAGS'' = Some ''-arch x86_64 -arch arm64''"
  then show "darwin_cmake_args h env = [''-DCMAKE_OSX_ARCHITECTURES=x86_64;arm64'']"
    using assms by (simp add: darwin_cmake_args_def findall_arch_two del: findall_arch.simps)
next
  assume "env ''ARCHFLAGS'' = None \<or> env ''ARCHFLAGS'' = Some []"
  then show "darwin_cmake_args h env = []"
    by (auto simp: darwin_cmake_args_def)
next
  fix v
  assume "env ''ARCHFLAGS'' = Some v"
  then have "(darwin_cmake_args h env = []) = (findall_arch v = [])"
    using assms by (simp add: darwin_cmake_args_def Let_def)
  then show "(darwin_cmake_args h env = [])
      = (\<not> (\<exists>pre c post. v = pre @ ''-arch '' @ c # post \<and> \<not> is_space c))"
    by (simp only: findall_arch_empty)
qed

lemma too_short_for_marker:
  "length v < 7 \<Longrightarrow> \<not> (\<exists>pre c post. v = pre @ ''-arch '' @ c # post \<and> \<not> is_space c)"
proof
  assume s: "length v < 7"
  assume "\<exists>pre c post. v = pre @ ''-arch '' @ c # post \<and> \<not> is_space c"
  then obtain pre c post where "v = pre @ ''-arch '' @ c # post" by blast
  then have "length v = length (pre @ ''-arch '' @ c # post)" by (rule arg_cong)
  with s show False by simp
qed

theorem macos_architectures_witness:
  "cmake_args mac_host release_build [''ARCHFLAGS'' \<mapsto> ''-arch x86_64 -arch arm64''] pyflagser_ext
     = [''-DCMAKE_LIBRARY_OUTPUT_DIRECTORY=/repo/build/lib.linux-x86_64-3.8/pyflagser/modules'',
        ''-DPYTHON_EXECUTABLE=/usr/bin/python3'',
        ''-DCMAKE_BUILD_TYPE=Release'',
        ''-DCMAKE_OSX_ARCHITECTURES=x86_64;arm64'']
   \<and> darwin_cmake_args mac_host Map.empty = []
   \<and> darwin_cmake_args mac_host [''ARCHFLAGS'' \<mapsto> []] = []
   \<and> darwin_cmake_args mac_host [''ARCHFLAGS'' \<mapsto> ''-arch''] = []
   \<and> darwin_cmake_args mac_host [''ARCHFLAGS'' \<mapsto> ''-arch ''] = []
   \<and> darwin_cmake_args mac_host [''ARCHFLAGS'' \<mapsto> ''x-arch y''] \<noteq> []"
proof -
  have m: "startswith (sys_platform mac_host) ''darwin''"
    by (simp add: mac_host_def startswith_def)
  have e: "extdir mac_host release_build pyflagser_ext
      = ''/repo/build/lib.linux-x86_64-3.8/pyflagser/modules''"
    unfolding mac_host_def extdir_platform by (rule extdir_linux)
  have "darwin_cmake_args mac_host [''ARCHFLAGS'' \<mapsto> ''-arch x86_64 -arch arm64'']
      = [''-DCMAKE_OSX_ARCHITECTURES=x86_64;arm64'']"
    using macos_architectures [OF m, of release_build
        "[''ARCHFLAGS'' \<mapsto> ''-arch x86_64 -arch arm64'']" pyflagser_ext]
    by simp
  then have a: "cmake_args mac_host release_build [''ARCHFLAGS'' \<mapsto> ''-arch x86_64 -arch arm64'']
      pyflagser_ext
     = [''-DCMAKE_LIBRARY_OUTPUT_DIRECTORY=/repo/build/lib.linux-x86_64-3.8/pyflagser/modules'',
        ''-DPYTHON_EXECUTABLE=/usr/bin/python3'',
        ''-DCMAKE_BUILD_TYPE=Release'',
        ''-DCMAKE_OSX_ARCHITECTURES=x86_64;arm64'']"
    by (simp add: cmake_args_def e platform_cmake_args_def cfg_def)
      (simp add: mac_host_def linux_host_def release_build_def)
  have b: "darwin_cmake_args mac_host Map.empty = []"
    using macos_architectures [OF m, of release_build Map.empty pyflagser_ext] by simp
  have c: "darwin_cmake_args mac_host [''ARCHFLAGS'' \<mapsto> []] = []"
    using macos_architectures [OF m, of release_build "[''ARCHFLAGS'' \<mapsto> []]" pyflagser_ext]
    by simp
  have "[''ARCHFLAGS'' \<mapsto> ''-arch''] ''ARCHFLAGS'' = Some ''-arch''"
    by simp
  with macos_architectures [OF m, of release_build "[''ARCHFLAGS'' \<mapsto> ''-arch'']"
      pyflagser_ext] too_short_for_marker [of "''-arch''"]
  have d: "darwin_cmake_args mac_host [''ARCHFLAGS'' \<mapsto> ''-arch''] = []"
    by auto
  have "[''ARCHFLAGS'' \<mapsto> ''-arch ''] ''ARCHFLAGS'' = Some ''-arch ''"
    by simp
  with macos_architectures [OF m, of release_build "[''ARCHFLAGS'' \<mapsto> ''-arch '']"
      pyflagser_ext] too_short_for_marker [of "''-arch ''"]
  have f: "darwin_cmake_args mac_host [''ARCHFLAGS'' \<mapsto> ''-arch ''] = []"
    by auto
  have "''x-arch y'' = ''x'' @ ''-arch '' @ CHR ''y'' # [] \<and> \<not> is_space (CHR ''y'')"
    by (simp add: is_space_def)
  then have "\<exists>pre c post. ''x-arch y'' = pre @ ''-arch '' @ c # post \<and> \<not> is_space c"
    by blast
  moreover have "[''ARCHFLAGS'' \<mapsto> ''x-arch y''] ''ARCHFLAGS'' = Some ''x-arch y''"
    by simp
  ultimately have g: "darwin_cmake_args mac_host [''ARCHFLAGS'' \<mapsto> ''x-arch y''] \<noteq> []"
    using macos_architectures [OF m, of release_build "[''ARCHFLAGS'' \<mapsto> ''x-arch y'']"
      pyflagser_ext]
    by blast
  show ?thesis by (intro conjI a b c d f g)
qed

text \<open>
  C4 as stated fails: the value \<open>--arch x86_64\<close> has the two words \<open>--arch\<close> and
  \<open>x86_64\<close>, so no word \<open>-arch\<close>, yet on a macOS host the directive for
  \<open>x86_64\<close> is appended.
\<close>

theorem macos_architectures_counterexample:
  "double_dash_env ''ARCHFLAGS'' = Some ''--arch x86_64''
   \<and> str_words ''--arch x86_64'' = [''--arch'', ''x86_64'']
   \<and> ''-arch'' \<notin> set (str_words ''--arch x86_64'')
   \<and> startswith (sys_platform mac_host) ''darwin''
   \<and> darwin_cmake_args mac_host double_dash_env = [''-DCMAKE_OSX_ARCHITECTURES=x86_64'']
   \<and> ''-DCMAKE_OSX_ARCHITECTURES=x86_64''
     \<in> set (cmake_args mac_host release_build double_dash_env pyflagser_ext)"
proof -
  have w: "str_words ''--arch x86_64'' = [''--arch'', ''x86_64'']"
    by (simp add: str_words_def is_space_def)
  have f: "findall_arch ''--arch x86_64'' = [''x86_64'']"
    by (simp add: match_arch_at_def startswith_def is_space_def)
  have m: "startswith (sys_platform mac_host) ''darwin''"
    by (simp add: mac_host_def startswith_def)
  have d: "darwin_cmake_args mac_host double_dash_env = [''-DCMAKE_OSX_ARCHITECTURES=x86_64'']"
    using m by (simp add: darwin_cmake_args_def double_dash_env_def f del: findall_arch.simps)
  show ?thesis
    using w m d by (simp add: cmake_args_def) (simp add: double_dash_env_def)
qed

section \<open>Processes started by the methods\<close>

lemma run_process_trace:
  "trace (snd (run_process h call w)) = trace w @ [(call, fst (run_process h call w))]"
  by (simp add: run_process_def split: prod.splits)

lemma run_process_environ: "environ (snd (run_process h call w)) = environ w"
  by (simp add: run_process_def split: prod.splits)

lemma run_process_outcome: "fst (run_process h call w) = fst (spawn h call w)"
  by (simp add: run_process_def split: prod.splits)

lemma check_call_snd: "snd (check_call h call w) = snd (run_process h call w)"
  by (simp add: check_call_def split: prod.splits proc_outcome.splits)

lemma check_call_fst:
  "fst (check_call h call w) =
     (case fst (run_process h call w) of
        NotInvocable \<Rightarrow> Inl OSError
      | Exited rc out \<Rightarrow> if rc = 0 then Inr 0 else Inl (CalledProcessError rc (argv call)))"
  by (simp add: check_call_def split: prod.splits proc_outcome.splits)

lemma check_call_ok:
  "(fst (check_call h call w) = Inr v) =
     (v = 0 \<and> (\<exists>out. fst (run_process h call w) = Exited 0 out))"
  by (auto simp: check_call_fst split: proc_outcome.splits)

lemma check_output_snd: "snd (check_output h call w) = snd (run_process h call w)"
  by (simp add: check_output_def split: prod.splits proc_outcome.splits)

lemma check_output_fst:
  "fst (check_output h call w) =
     (case fst (run_process h call w) of
        NotInvocable \<Rightarrow> Inl OSError
      | Exited rc out \<Rightarrow> if rc = 0 then Inr out else Inl (CalledProcessError rc (argv call)))"
  by (simp add: check_output_def split: prod.splits proc_outcome.splits)

lemma os_makedirs_trace: "trace (snd (os_makedirs h p w)) = trace w"
  by (simp add: os_makedirs_def)

lemma os_makedirs_environ: "environ (snd (os_makedirs h p w)) = environ w"
  by (simp add: os_makedirs_def)

lemma os_makedirs_error: "fst (os_makedirs h p w) = Inl e \<Longrightarrow> e = OSError"
  by (simp add: os_makedirs_def split: if_splits)

lemma os_mkdir_trace: "trace (snd (os_mkdir h p w)) = trace w"
  by (simp add: os_mkdir_def)

lemma os_mkdir_environ: "environ (snd (os_mkdir h p w)) = environ w"
  by (simp add: os_mkdir_def)

lemma ensure_build_temp_trace: "trace (snd (ensure_build_temp h self w)) = trace w"
  by (simp add: ensure_build_temp_def os_makedirs_trace)

lemma ensure_build_temp_environ: "environ (snd (ensure_build_temp h self w)) = environ w"
  by (simp add: ensure_build_temp_def os_makedirs_environ)

lemma build_extension_unfold:
  "build_extension h self ext w =
     (case fst (ensure_build_temp h self w) of
        Inl e \<Rightarrow> (Inl e, snd (ensure_build_temp h self w))
      | Inr _ \<Rightarrow>
          (case fst (check_call h (configure_call h self (environ w) ext)
                       (snd (ensure_build_temp h self w))) of
             Inl e \<Rightarrow> (Inl e, snd (check_call h (configure_call h self (environ w) ext)
                                       (snd (ensure_build_temp h self w))))
           | Inr _ \<Rightarrow>
               (case fst (check_call h (compile_call h self)
                            (snd (check_call h (configure_call h self (environ w) ext)
                                    (snd (ensure_build_temp h self w))))) of
                  Inl e \<Rightarrow> (Inl e, snd (check_call h (compile_call h self)
                            (snd (check_call h (configure_call h self (environ w) ext)
                                    (snd (ensure_build_temp h self w))))))
                | Inr _ \<Rightarrow> (Inr (), snd (check_call h (compile_call h self)
                            (snd (check_call h (configure_call h self (environ w) ext)
                                    (snd (ensure_build_temp h self w)))))))))"
  by (simp add: build_extension_def Let_def case_prod_beta split: sum.splits)


lemma conf_not_comp: "configure_call h self env ext \<noteq> compile_call h self'"
proof
  assume "configure_call h self env ext = compile_call h self'"
  then have "argv (configure_call h self env ext) = argv (compile_call h self')"
    by (rule arg_cong)
  then show False
    by (simp add: configure_call_def compile_call_def cmake_args_def)
qed

lemma started_append: "trace w' = trace w @ xs \<Longrightarrow> started w w' = xs"
  by (simp add: started_def)

lemma started_self: "trace w' = trace w \<Longrightarrow> started w w' = []"
  by (simp add: started_def)

text \<open>
  The four ways \<open>build_extension\<close> can go: the build directory cannot be made; the
  configure process cannot be started; it exits with a status other than 0; it exits
  with 0 and the compile process is started.
\<close>

lemma build_extension_cases:
  "(fst (build_extension h self ext w) = Inl OSError
      \<and> started w (snd (build_extension h self ext w)) = [])
   \<or> (fst (build_extension h self ext w) = Inl OSError
      \<and> started w (snd (build_extension h self ext w))
          = [(configure_call h self (environ w) ext, NotInvocable)])
   \<or> (\<exists>rc out. rc \<noteq> 0
      \<and> fst (build_extension h self ext w)
          = Inl (CalledProcessError rc (argv (configure_call h self (environ w) ext)))
      \<and> started w (snd (build_extension h self ext w))
          = [(configure_call h self (environ w) ext, Exited rc out)])
   \<or> (\<exists>out r. started w (snd (build_extension h self ext w))
          = [(configure_call h self (environ w) ext, Exited 0 out), (compile_call h self, r)])"
proof (cases "fst (ensure_build_temp h self w)")
  case (Inl e)
  then have "e = OSError"
    by (auto simp: ensure_build_temp_def dest: os_makedirs_error split: if_splits)
  with Inl have "fst (build_extension h self ext w) = Inl OSError"
    and "trace (snd (build_extension h self ext w)) = trace w"
    by (simp_all add: build_extension_unfold ensure_build_temp_trace)
  then show ?thesis by (simp add: started_self)
next
  case (Inr u)
  let ?w1 = "snd (ensure_build_temp h self w)"
  let ?conf = "configure_call h self (environ w) ext"
  let ?w2 = "snd (check_call h ?conf ?w1)"
  have t2: "trace ?w2 = trace w @ [(?conf, fst (run_process h ?conf ?w1))]"
    by (simp add: check_call_snd run_process_trace ensure_build_temp_trace)
  show ?thesis
  proof (cases "fst (run_process h ?conf ?w1)")
    case NotInvocable
    with Inr t2 have "fst (build_extension h self ext w) = Inl OSError"
      and "trace (snd (build_extension h self ext w)) = trace w @ [(?conf, NotInvocable)]"
      by (simp_all add: build_extension_unfold check_call_fst)
    then show ?thesis by (simp add: started_append)
  next
    case (Exited rc out)
    show ?thesis
    proof (cases "rc = 0")
      case False
      with Inr t2 Exited have "fst (build_extension h self ext w)
          = Inl (CalledProcessError rc (argv ?conf))"
        and "trace (snd (build_extension h self ext w)) = trace w @ [(?conf, Exited rc out)]"
        by (simp_all add: build_extension_unfold check_call_fst)
      with False show ?thesis by (simp add: started_append)
    next
      case True
      let ?comp = "compile_call h self"
      have c: "fst (check_call h ?conf ?w1) = Inr 0"
        using True Exited by (simp add: check_call_fst)
      have "snd (build_extension h self ext w) = snd (check_call h ?comp ?w2)"
        using Inr c by (simp add: build_extension_unfold split: sum.splits)
      then have "trace (snd (build_extension h self ext w))
          = trace w @ [(?conf, Exited 0 out), (?comp, fst (run_process h ?comp ?w2))]"
        using t2 True Exited by (simp add: check_call_snd run_process_trace)
      then have "started w (snd (build_extension h self ext w))
          = [(?conf, Exited 0 out), (?comp, fst (run_process h ?comp ?w2))]"
        by (rule started_append)
      then show ?thesis by blast
    qed
  qed
qed

text \<open>
  C9. If \<open>build_extension\<close> started the compile process at all, then it started
  exactly two processes: the configure process, which exited with status 0, and then
  the compile process. If the configure process exited with another status, the method
  raised \<open>CalledProcessError\<close> with that status and the configure command, and the
  configure process is the only one it started.
\<close>

theorem compile_after_configure:
  "(\<forall>r. (compile_call h self, r) \<in> set (started w (snd (build_extension h self ext w))) \<longrightarrow>
      (\<exists>out. started w (snd (build_extension h self ext w))
         = [(configure_call h self (environ w) ext, Exited 0 out), (compile_call h self, r)]))
   \<and> (\<forall>rc out. rc \<noteq> 0
        \<and> (configure_call h self (environ w) ext, Exited rc out)
            \<in> set (started w (snd (build_extension h self ext w))) \<longrightarrow>
      fst (build_extension h self ext w)
        = Inl (CalledProcessError rc (argv (configure_call h self (environ w) ext)))
      \<and> started w (snd (build_extension h self ext w))
        = [(configure_call h self (environ w) ext, Exited rc out)])"
  using build_extension_cases [of h self ext w] conf_not_comp [of h self "environ w" ext self]
  by (elim disjE exE conjE) auto


lemma fresh_build_failing:
  "build_extension failing_configure_host release_build pyflagser_ext fresh_world
     = (Inl (CalledProcessError 2
          (argv (configure_call failing_configure_host release_build (environ fresh_world)
             pyflagser_ext))),
        fresh_world\<lparr>fs := fs fresh_world \<union> set (ancestors (build_temp release_build))
                         \<union> {build_temp release_build},
          trace := [(configure_call failing_configure_host release_build (environ fresh_world)
             pyflagser_ext, Exited 2 [])]\<rparr>)"
  by (simp add: build_extension_def ensure_build_temp_def os_makedirs_def check_call_def
      run_process_def failing_configure_host_def linux_host_def tool_spawn_def
      configure_call_def fresh_world_def release_build_def pyflagser_ext_def)

lemma fresh_build_linux:
  "build_extension linux_host release_build pyflagser_ext fresh_world
     = (Inr (),
        fresh_world\<lparr>fs := fs fresh_world \<union> set (ancestors (build_temp release_build))
                         \<union> {build_temp release_build},
          trace := [(configure_call linux_host release_build (environ fresh_world)
                       pyflagser_ext, Exited 0 []),
                    (compile_call linux_host release_build, Exited 0 [])]\<rparr>)"
  by (simp add: build_extension_def ensure_build_temp_def os_makedirs_def check_call_def
      run_process_def linux_host_def tool_spawn_def compile_call_def
      configure_call_def fresh_world_def release_build_def pyflagser_ext_def)

theorem compile_after_configure_witness:
  "started fresh_world
     (snd (build_extension linux_host release_build pyflagser_ext fresh_world))
     = [(configure_call linux_host release_build (environ fresh_world) pyflagser_ext,
         Exited 0 []),
        (compile_call linux_host release_build, Exited 0 [])]
   \<and> fst (build_extension failing_configure_host release_build pyflagser_ext fresh_world)
     = Inl (CalledProcessError 2
         (argv (configure_call failing_configure_host release_build (environ fresh_world)
            pyflagser_ext)))
   \<and> started fresh_world
     (snd (build_extension failing_configure_host release_build pyflagser_ext fresh_world))
     = [(configure_call failing_configure_host release_build (environ fresh_world)
           pyflagser_ext, Exited 2 [])]"
proof -
  have "(compile_call linux_host release_build, Exited 0 [])
      \<in> set (started fresh_world
           (snd (build_extension linux_host release_build pyflagser_ext fresh_world)))"
    by (simp add: fresh_build_linux started_def) (simp add: fresh_world_def)
  with compile_after_configure [of linux_host release_build fresh_world pyflagser_ext]
  obtain out where a: "started fresh_world
     (snd (build_extension linux_host release_build pyflagser_ext fresh_world))
     = [(configure_call linux_host release_build (environ fresh_world) pyflagser_ext,
         Exited 0 out),
        (compile_call linux_host release_build, Exited 0 [])]"
    by blast
  moreover have "started fresh_world
     (snd (build_extension linux_host release_build pyflagser_ext fresh_world)) ! 0
      = (configure_call linux_host release_build (environ fresh_world) pyflagser_ext,
         Exited 0 [])"
    by (simp add: fresh_build_linux started_def) (simp add: fresh_world_def)
  ultimately have b: "out = []" by simp
  have "(2::int) \<noteq> 0
    \<and> (configure_call failing_configure_host release_build (environ fresh_world) pyflagser_ext,
       Exited 2 [])
      \<in> set (started fresh_world
           (snd (build_extension failing_configure_host release_build pyflagser_ext
              fresh_world)))"
    by (simp add: fresh_build_failing started_def) (simp add: fresh_world_def)
  with compile_after_configure [of failing_configure_host release_build fresh_world
      pyflagser_ext]
  have "fst (build_extension failing_configure_host release_build pyflagser_ext fresh_world)
     = Inl (CalledProcessError 2
         (argv (configure_call failing_configure_host release_build (environ fresh_world)
            pyflagser_ext)))
   \<and> started fresh_world
     (snd (build_extension failing_configure_host release_build pyflagser_ext fresh_world))
     = [(configure_call failing_configure_host release_build (environ fresh_world)
           pyflagser_ext, Exited 2 [])]"
    by blast
  with a b show ?thesis by simp
qed

section \<open>The environment of the build\<close>

lemma check_call_environ: "environ (snd (check_call h call w)) = environ w"
  by (simp add: check_call_snd run_process_environ)

lemma build_extension_environ: "environ (snd (build_extension h self ext w)) = environ w"
  by (simp add: build_extension_unfold check_call_environ ensure_build_temp_environ
      split: sum.splits)

lemma build_extension_calls:
  "map fst (started w (snd (build_extension h self ext w)))
     \<in> {[], [configure_call h self (environ w) ext],
         [configure_call h self (environ w) ext, compile_call h self]}"
  using build_extension_cases [of h self ext w] by auto

text \<open>
  C5, as the code has it. \<open>build_extension\<close> leaves \<open>os.environ\<close> as it was. The
  environment it prepares is \<open>os.environ\<close> with \<open>CXXFLAGS\<close> replaced by its old
  value (empty if unset), a space and the quoted version define. The processes it
  starts are the configure call, then the compile call, or an initial part of the two.
  The configure call passes the prepared environment. The compile call passes none, so
  the compile process sees \<open>os.environ\<close>, which differs from the prepared environment
  in \<open>CXXFLAGS\<close>.
\<close>

theorem prepared_environment:
  "environ (snd (build_extension h self ext w)) = environ w
   \<and> build_env self (environ w) ''CXXFLAGS''
       = Some ((case environ w ''CXXFLAGS'' of None \<Rightarrow> [] | Some v \<Rightarrow> v)
               @ '' -DVERSION_INFO='' @ [CHR 0x5C, CHR 0x22] @ dist_version self
               @ [CHR 0x5C, CHR 0x22])
   \<and> (\<forall>k. k \<noteq> ''CXXFLAGS'' \<longrightarrow> build_env self (environ w) k = environ w k)
   \<and> map fst (started w (snd (build_extension h self ext w)))
       \<in> {[], [configure_call h self (environ w) ext],
           [configure_call h self (environ w) ext, compile_call h self]}
   \<and> child_env w (configure_call h self (environ w) ext) = build_env self (environ w)
   \<and> inv_env (compile_call h self) = None
   \<and> child_env w (compile_call h self) = environ w
   \<and> environ w ''CXXFLAGS'' \<noteq> build_env self (environ w) ''CXXFLAGS''"
proof -
  have "environ w ''CXXFLAGS'' \<noteq> build_env self (environ w) ''CXXFLAGS''"
    by (cases "environ w ''CXXFLAGS''") (simp_all add: build_env_def)
  then show ?thesis
    using build_extension_calls [of w h self ext]
    by (simp add: build_extension_environ child_env_def configure_call_def compile_call_def)
      (simp add: build_env_def)
qed

theorem prepared_environment_witness:
  "environ (snd (build_extension linux_host release_build pyflagser_ext fresh_world))
     = [''PATH'' \<mapsto> ''/usr/bin'']
   \<and> build_env release_build (environ fresh_world) ''CXXFLAGS''
     = Some ('' -DVERSION_INFO='' @ [CHR 0x5C, CHR 0x22] @ ''0.4.5'' @ [CHR 0x5C, CHR 0x22])
   \<and> build_env release_build (environ fresh_world) ''PATH'' = Some ''/usr/bin''
   \<and> child_env fresh_world (compile_call linux_host release_build) ''CXXFLAGS'' = None"
  using prepared_environment [of linux_host release_build pyflagser_ext fresh_world]
  by (simp add: fresh_world_def release_build_def)

text \<open>
  C5 as stated fails: in a successful build of the example the second process, the
  compile call, is started without the prepared environment and sees no \<open>CXXFLAGS\<close>.
\<close>

theorem prepared_environment_counterexample:
  "fst (build_extension linux_host release_build pyflagser_ext fresh_world) = Inr ()
   \<and> map fst (started fresh_world
        (snd (build_extension linux_host release_build pyflagser_ext fresh_world)))
     = [configure_call linux_host release_build (environ fresh_world) pyflagser_ext,
        compile_call linux_host release_build]
   \<and> inv_env (compile_call linux_host release_build)
     \<noteq> Some (build_env release_build (environ fresh_world))
   \<and> child_env fresh_world (compile_call linux_host release_build) ''CXXFLAGS'' = None
   \<and> build_env release_build (environ fresh_world) ''CXXFLAGS''
     = Some ('' -DVERSION_INFO='' @ [CHR 0x5C, CHR 0x22] @ ''0.4.5'' @ [CHR 0x5C, CHR 0x22])"
  by (simp add: fresh_build_linux started_def)
    (simp add: fresh_world_def child_env_def compile_call_def build_env_def release_build_def)

section \<open>The dependency\<close>

lemma install_dependencies_unfold:
  "install_dependencies h w =
     (if dir_pybind11 h \<in> fs w then (Inr (Some 0), w)
      else if \<not> may_mkdir h w (dir_pybind11 h) then (Inl OSError, w)
      else (case fst (check_call h (git_clone h) (w\<lparr>fs := insert (dir_pybind11 h) (fs w)\<rparr>)) of
              Inl e \<Rightarrow> (Inl e, snd (check_call h (git_clone h)
                                      (w\<lparr>fs := insert (dir_pybind11 h) (fs w)\<rparr>)))
            | Inr _ \<Rightarrow>
                (case fst (check_call h git_submodule
                             (snd (check_call h (git_clone h)
                                     (w\<lparr>fs := insert (dir_pybind11 h) (fs w)\<rparr>)))) of
                   Inl e \<Rightarrow> (Inl e, snd (check_call h git_submodule
                             (snd (check_call h (git_clone h)
                                     (w\<lparr>fs := insert (dir_pybind11 h) (fs w)\<rparr>)))))
                 | Inr _ \<Rightarrow> (Inr None, snd (check_call h git_submodule
                             (snd (check_call h (git_clone h)
                                     (w\<lparr>fs := insert (dir_pybind11 h) (fs w)\<rparr>))))))))"
  by (simp add: install_dependencies_def os_mkdir_def case_prod_beta split: sum.splits)

lemma clone_not_submodule: "git_submodule \<noteq> git_clone h"
proof
  assume "git_submodule = git_clone h"
  then have "argv git_submodule = argv (git_clone h)" by (rule arg_cong)
  then show False by (simp add: git_submodule_def git_clone_def)
qed

text \<open>What \<open>install_dependencies\<close> starts: nothing, the clone, or the clone and the update.\<close>

lemma install_dependencies_calls:
  "map fst (started w (snd (install_dependencies h w)))
     \<in> {[], [git_clone h], [git_clone h, git_submodule]}"
proof -
  let ?w0 = "w\<lparr>fs := insert (dir_pybind11 h) (fs w)\<rparr>"
  let ?w1 = "snd (check_call h (git_clone h) ?w0)"
  let ?w2 = "snd (check_call h git_submodule ?w1)"
  have t1: "trace ?w1 = trace w @ [(git_clone h, fst (run_process h (git_clone h) ?w0))]"
    by (simp add: check_call_snd run_process_trace)
  then have t2: "trace ?w2 = trace w @ [(git_clone h, fst (run_process h (git_clone h) ?w0)),
      (git_submodule, fst (run_process h git_submodule ?w1))]"
    by (simp add: check_call_snd run_process_trace)
  have "snd (install_dependencies h w) = w \<or> snd (install_dependencies h w) = ?w1
      \<or> snd (install_dependencies h w) = ?w2"
    by (simp add: install_dependencies_unfold split: sum.splits)
  then show ?thesis
    using t1 t2 by (auto simp: started_def)
qed

lemma run_process_fs: "fs (snd (run_process h call w)) = snd (spawn h call w)"
  by (simp add: run_process_def split: prod.splits)

text \<open>
  If no process removes the directory, it exists after every call of
  \<open>install_dependencies\<close> that got past \<open>os.mkdir\<close>.
\<close>

lemma install_dependencies_leaves_directory:
  assumes keep: "\<forall>call w'. dir_pybind11 h \<in> fs w' \<longrightarrow> dir_pybind11 h \<in> snd (spawn h call w')"
    and past: "dir_pybind11 h \<in> fs w \<or> may_mkdir h w (dir_pybind11 h)"
  shows "dir_pybind11 h \<in> fs (snd (install_dependencies h w))"
proof (cases "dir_pybind11 h \<in> fs w")
  case True
  then show ?thesis by (simp add: install_dependencies_unfold)
next
  case False
  let ?w0 = "w\<lparr>fs := insert (dir_pybind11 h) (fs w)\<rparr>"
  let ?w1 = "snd (check_call h (git_clone h) ?w0)"
  let ?w2 = "snd (check_call h git_submodule ?w1)"
  have "dir_pybind11 h \<in> fs ?w0" by simp
  with keep have d1: "dir_pybind11 h \<in> fs ?w1"
    unfolding check_call_snd run_process_fs by blast
  with keep have d2: "dir_pybind11 h \<in> fs ?w2"
    unfolding check_call_snd [of h git_submodule] run_process_fs by blast
  from False past have "snd (install_dependencies h w) = ?w1
      \<or> snd (install_dependencies h w) = ?w2"
    by (simp add: install_dependencies_unfold split: sum.splits)
  with d1 d2 show ?thesis by auto
qed

lemma install_dependencies_present:
  "dir_pybind11 h \<in> fs w \<Longrightarrow> install_dependencies h w = (Inr (Some 0), w)"
  by (simp add: install_dependencies_def)

lemma one_clone:
  "xs \<in> {[], [git_clone h], [git_clone h, git_submodule]}
   \<Longrightarrow> length (filter (\<lambda>c. c = git_clone h) xs) \<le> 1"
  using clone_not_submodule [of h] by auto

text \<open>
  C6. If the directory exists, \<open>install_dependencies\<close> returns 0 and changes nothing:
  no path is made and no process is started; the contents of the directory are never
  looked at. Two calls in a row start the clone at most once, provided no process that
  the script starts removes the directory; and when the first call returns normally,
  the second one is such a no-op.
\<close>

theorem install_dependencies_idempotent:
  "(dir_pybind11 h \<in> fs w \<longrightarrow> install_dependencies h w = (Inr (Some 0), w))
   \<and> ((\<forall>call w'. dir_pybind11 h \<in> fs w' \<longrightarrow> dir_pybind11 h \<in> snd (spawn h call w')) \<longrightarrow>
        length (filter (\<lambda>c. c = git_clone h)
          (map fst (started w
             (snd (install_dependencies h (snd (install_dependencies h w))))))) \<le> 1
        \<and> (\<forall>v. fst (install_dependencies h w) = Inr v \<longrightarrow>
             install_dependencies h (snd (install_dependencies h w))
               = (Inr (Some 0), snd (install_dependencies h w))))"
proof (intro conjI impI allI)
  assume "dir_pybind11 h \<in> fs w"
  then show "install_dependencies h w = (Inr (Some 0), w)"
    by (rule install_dependencies_present)
next
  assume keep: "\<forall>call w'. dir_pybind11 h \<in> fs w' \<longrightarrow> dir_pybind11 h \<in> snd (spawn h call w')"
  let ?w1 = "snd (install_dependencies h w)"
  show "length (filter (\<lambda>c. c = git_clone h)
          (map fst (started w (snd (install_dependencies h ?w1))))) \<le> 1"
  proof (cases "dir_pybind11 h \<in> fs w \<or> may_mkdir h w (dir_pybind11 h)")
    case True
    with keep have "dir_pybind11 h \<in> fs ?w1"
      by (rule install_dependencies_leaves_directory)
    then have "snd (install_dependencies h ?w1) = ?w1"
      by (simp add: install_dependencies_present)
    then show ?thesis
      using one_clone [OF install_dependencies_calls [of w h]] by simp
  next
    case False
    then have "?w1 = w" by (simp add: install_dependencies_unfold)
    then show ?thesis
      using one_clone [OF install_dependencies_calls [of w h]] by simp
  qed
  fix v
  assume "fst (install_dependencies h w) = Inr v"
  then have "dir_pybind11 h \<in> fs w \<or> may_mkdir h w (dir_pybind11 h)"
    by (auto simp: install_dependencies_unfold split: if_splits)
  with keep have "dir_pybind11 h \<in> fs ?w1"
    by (rule install_dependencies_leaves_directory)
  then show "install_dependencies h ?w1 = (Inr (Some 0), ?w1)"
    by (rule install_dependencies_present)
qed


lemma dir_pybind11_linux: "dir_pybind11 linux_host = ''/repo/pybind11''"
  by (simp add: dir_pybind11_def linux_host_def posixpath_def posix_join_def posix_join2_def
      startswith_def)

lemma tool_spawn_fs: "snd (tool_spawn v rc call w) = fs w"
  by (simp add: tool_spawn_def split: option.splits)

theorem install_dependencies_idempotent_witness:
  "install_dependencies linux_host populated_world = (Inr (Some 0), populated_world)
   \<and> fst (install_dependencies linux_host fresh_world) = Inr None
   \<and> length (filter (\<lambda>c. c = git_clone linux_host)
       (map fst (started fresh_world
          (snd (install_dependencies linux_host
             (snd (install_dependencies linux_host fresh_world))))))) \<le> 1
   \<and> install_dependencies linux_host (snd (install_dependencies linux_host fresh_world))
     = (Inr (Some 0), snd (install_dependencies linux_host fresh_world))"
proof -
  have p: "dir_pybind11 linux_host \<in> fs populated_world"
    by (simp add: dir_pybind11_linux populated_world_def)
  have k: "\<forall>call w'. dir_pybind11 linux_host \<in> fs w'
      \<longrightarrow> dir_pybind11 linux_host \<in> snd (spawn linux_host call w')"
    by (simp add: linux_host_def tool_spawn_fs)
  have g: "fst (check_call linux_host (git_clone linux_host) w') = Inr 0"
    "fst (check_call linux_host git_submodule w') = Inr 0" for w'
    by (simp_all add: check_call_fst run_process_outcome linux_host_def tool_spawn_def
        git_clone_def git_submodule_def)
  have m: "may_mkdir linux_host fresh_world (dir_pybind11 linux_host)"
    by (simp add: linux_host_def)
  have n: "dir_pybind11 linux_host \<notin> fs fresh_world"
    by (simp add: dir_pybind11_linux fresh_world_def)
  have f: "fst (install_dependencies linux_host fresh_world) = Inr None"
    by (simp add: install_dependencies_unfold g m n)
  from install_dependencies_idempotent [of linux_host populated_world] p
  have a: "install_dependencies linux_host populated_world = (Inr (Some 0), populated_world)"
    by blast
  from install_dependencies_idempotent [of linux_host fresh_world] k f
  show ?thesis
    using a by blast
qed

section \<open>The toolchain check of \<open>run\<close>\<close>

lemma run_unfold:
  "run h self w =
     (case fst (run_process h version_query w) of
        NotInvocable \<Rightarrow>
          (Inl (RuntimeError (msg_cmake_missing self)), snd (run_process h version_query w))
      | Exited rc out \<Rightarrow>
          if rc \<noteq> 0
          then (Inl (CalledProcessError rc (argv version_query)),
                snd (run_process h version_query w))
          else (case check_cmake_version h out of
                  Inl e \<Rightarrow> (Inl e, snd (run_process h version_query w))
                | Inr _ \<Rightarrow>
                    (case fst (install_dependencies h (snd (run_process h version_query w))) of
                       Inl e \<Rightarrow>
                         (Inl e,
                          snd (install_dependencies h (snd (run_process h version_query w))))
                     | Inr _ \<Rightarrow>
                         build_extensions h self (extensions self)
                           (snd (install_dependencies h
                                   (snd (run_process h version_query w)))))))"
  by (auto simp: run_def check_output_def case_prod_beta
      split: sum.splits proc_outcome.splits error.splits)

lemma check_call_error:
  "fst (check_call h call w) = Inl e \<Longrightarrow> e = OSError \<or> (\<exists>rc a. e = CalledProcessError rc a)"
  by (auto simp: check_call_fst split: proc_outcome.splits if_splits)

lemma install_dependencies_error:
  "fst (install_dependencies h w) = Inl e \<Longrightarrow> e = OSError \<or> (\<exists>rc a. e = CalledProcessError rc a)"
  by (auto simp: install_dependencies_unfold split: if_splits sum.splits
      dest: check_call_error)

lemma build_extension_error:
  "fst (build_extension h self ext w) = Inl e
   \<Longrightarrow> e = OSError \<or> (\<exists>rc a. e = CalledProcessError rc a)"
  by (auto simp: build_extension_unfold ensure_build_temp_def split: if_splits sum.splits
      dest: check_call_error os_makedirs_error)

lemma build_extensions_error:
  "fst (build_extensions h self exts w) = Inl e
   \<Longrightarrow> e = OSError \<or> (\<exists>rc a. e = CalledProcessError rc a)"
proof (induction exts arbitrary: w)
  case Nil
  then show ?case by simp
next
  case (Cons ext exts)
  show ?case
  proof (cases "fst (build_extension h self ext w)")
    case (Inl e')
    with Cons.prems have "e' = e"
      by (simp add: case_prod_beta)
    with Inl show ?thesis by (auto dest: build_extension_error)
  next
    case (Inr u)
    with Cons.prems
    have "fst (build_extensions h self exts (snd (build_extension h self ext w))) = Inl e"
      by (simp add: case_prod_beta)
    then show ?thesis by (rule Cons.IH)
  qed
qed

lemma minimum_version: "version_parse legacy ''3.1.0'' = Inr (Version [3, 1, 0])"
  by (simp add: version_parse_def is_digit_def)

lemma missing_is_not_too_old: "msg_cmake_missing self \<noteq> msg_cmake_too_old"
  by (simp add: msg_cmake_missing_def msg_cmake_too_old_def)

lemma version_parse_error: "version_parse legacy s = Inl e \<Longrightarrow> e = InvalidVersion s"
  by (simp add: version_parse_def Let_def split: if_splits)

lemma check_cmake_version_too_old:
  "(check_cmake_version h out = Inl (RuntimeError msg_cmake_too_old))
     = (platform_system h = ''Windows''
        \<and> (\<exists>g v. re_search_version out = Some g
               \<and> version_parse (packaging_legacy h) g = Inr v
               \<and> version_lt v (Version [3, 1, 0])))"
  by (auto simp: check_cmake_version_def minimum_version
      split: option.splits sum.splits if_splits dest: version_parse_error)

lemma check_cmake_version_passes:
  "re_search_version out = Some g \<Longrightarrow> version_parse (packaging_legacy h) g = Inr v
   \<Longrightarrow> \<not> version_lt v (Version [3, 1, 0]) \<Longrightarrow> check_cmake_version h out = Inr ()"
  by (simp add: check_cmake_version_def minimum_version)

lemma release_key_minimum: "release_key [3, 1, 0] = [3, 1]"
  by (simp add: release_key_def)

lemma check_cmake_version_elsewhere:
  "platform_system h \<noteq> ''Windows'' \<Longrightarrow> check_cmake_version h out = Inr ()"
  by (simp add: check_cmake_version_def)

text \<open>
  C7. If the process \<open>cmake --version\<close> cannot be started, \<open>run\<close> raises the
  \<open>RuntimeError\<close> that says CMake must be installed and names the targets, and the
  attempt of the version query is the only process of the run: no configure call and
  no compile call of any target is among the processes started.
\<close>

theorem toolchain_missing:
  assumes "fst (spawn h version_query w) = NotInvocable"
  shows "fst (run h self w) = Inl (RuntimeError (msg_cmake_missing self))
         \<and> started w (snd (run h self w)) = [(version_query, NotInvocable)]
         \<and> configure_call h self env ext \<notin> fst ` set (started w (snd (run h self w)))
         \<and> compile_call h self \<notin> fst ` set (started w (snd (run h self w)))"
proof -
  have n: "fst (run_process h version_query w) = NotInvocable"
    using assms by (simp add: run_process_outcome)
  then have r: "fst (run h self w) = Inl (RuntimeError (msg_cmake_missing self))"
    and "snd (run h self w) = snd (run_process h version_query w)"
    by (simp_all add: run_unfold)
  then have "trace (snd (run h self w)) = trace w @ [(version_query, NotInvocable)]"
    using n by (simp add: run_process_trace)
  then have s: "started w (snd (run h self w)) = [(version_query, NotInvocable)]"
    by (rule started_append)
  have "argv (configure_call h self env ext) \<noteq> argv version_query"
    and "argv (compile_call h self) \<noteq> argv version_query"
    by (simp_all add: configure_call_def compile_call_def version_query_def cmake_args_def)
  then have "configure_call h self env ext \<noteq> version_query"
    and "compile_call h self \<noteq> version_query"
    by auto
  with r s show ?thesis by simp
qed

theorem toolchain_missing_witness:
  "fst (run no_cmake_host release_build fresh_world)
     = Inl (RuntimeError
         ''CMake must be installed to build the  following extensions: pyflagser'')
   \<and> started fresh_world (snd (run no_cmake_host release_build fresh_world))
     = [(version_query, NotInvocable)]"
proof -
  have "fst (spawn no_cmake_host version_query fresh_world) = NotInvocable"
    by (simp add: no_cmake_host_def linux_host_def tool_spawn_def version_query_def)
  from toolchain_missing [OF this, of release_build]
  show ?thesis
    by (simp add: msg_cmake_missing_def release_build_def pyflagser_ext_def)
qed

text \<open>
  C8. \<open>run\<close> raises the \<open>RuntimeError\<close> that asks for CMake 3.1.0 exactly when the
  platform is Windows, the version query exited with status 0, its output has a match
  of the regular expression, \<open>version.parse\<close> returns a version for the matched text,
  and that version is below 3.1.0, the parsed literal of line 87. A release is below
  it when its numbers, trailing zeros removed, are below \<open>(3, 1)\<close>; a legacy version
  always is. On Windows a parsed version that is not below 3.1.0 passes the check. On
  every other platform the check of lines 84 to 88 does nothing, whatever the output is.
\<close>

theorem version_threshold:
  "(fst (run h self w) = Inl (RuntimeError msg_cmake_too_old))
     = (platform_system h = ''Windows''
        \<and> (\<exists>out g v. fst (spawn h version_query w) = Exited 0 out
               \<and> re_search_version out = Some g
               \<and> version_parse (packaging_legacy h) g = Inr v
               \<and> version_lt v (Version [3, 1, 0])))
   \<and> version_parse (packaging_legacy h) ''3.1.0'' = Inr (Version [3, 1, 0])
   \<and> (\<forall>r. version_lt (Version r) (Version [3, 1, 0]) = tuple_lt (release_key r) [3, 1])
   \<and> (\<forall>s. version_lt (LegacyVersion s) (Version [3, 1, 0]))
   \<and> (\<forall>out g v. platform_system h = ''Windows'' \<and> re_search_version out = Some g
         \<and> version_parse (packaging_legacy h) g = Inr v
         \<and> \<not> version_lt v (Version [3, 1, 0]) \<longrightarrow> check_cmake_version h out = Inr ())
   \<and> (platform_system h \<noteq> ''Windows'' \<longrightarrow> (\<forall>out. check_cmake_version h out = Inr ()))"
proof (intro conjI impI allI)
  show "version_parse (packaging_legacy h) ''3.1.0'' = Inr (Version [3, 1, 0])"
    by (rule minimum_version)
next
  fix r
  show "version_lt (Version r) (Version [3, 1, 0]) = tuple_lt (release_key r) [3, 1]"
    by (simp only: version_lt.simps release_key_minimum)
next
  fix s
  show "version_lt (LegacyVersion s) (Version [3, 1, 0])"
    by simp
next
  fix out g v
  assume "platform_system h = ''Windows'' \<and> re_search_version out = Some g
         \<and> version_parse (packaging_legacy h) g = Inr v
         \<and> \<not> version_lt v (Version [3, 1, 0])"
  then show "check_cmake_version h out = Inr ()"
    by (simp add: check_cmake_version_passes)
next
  fix out
  assume "platform_system h \<noteq> ''Windows''"
  then show "check_cmake_version h out = Inr ()"
    by (rule check_cmake_version_elsewhere)
next
  let ?w1 = "snd (run_process h version_query w)"
  show "(fst (run h self w) = Inl (RuntimeError msg_cmake_too_old))
     = (platform_system h = ''Windows''
        \<and> (\<exists>out g v. fst (spawn h version_query w) = Exited 0 out
               \<and> re_search_version out = Some g
               \<and> version_parse (packaging_legacy h) g = Inr v
               \<and> version_lt v (Version [3, 1, 0])))"
  proof (cases "fst (run_process h version_query w)")
    case NotInvocable
    then have "fst (run h self w) = Inl (RuntimeError (msg_cmake_missing self))"
      by (simp add: run_unfold)
    with NotInvocable show ?thesis
      using missing_is_not_too_old [of self] by (simp add: run_process_outcome)
  next
    case (Exited rc out)
    show ?thesis
    proof (cases "rc = 0")
      case False
      with Exited have "fst (run h self w) = Inl (CalledProcessError rc (argv version_query))"
        by (simp add: run_unfold)
      with Exited False show ?thesis
        by (simp add: run_process_outcome)
    next
      case True
      have later: "fst (run h self w) \<noteq> Inl (RuntimeError msg_cmake_too_old)"
        if ok: "check_cmake_version h out = Inr u" for u
      proof
        assume a: "fst (run h self w) = Inl (RuntimeError msg_cmake_too_old)"
        show False
        proof (cases "fst (install_dependencies h ?w1)")
          case (Inl e)
          with a Exited True ok have "e = RuntimeError msg_cmake_too_old"
            by (simp add: run_unfold)
          with Inl show False by (auto dest: install_dependencies_error)
        next
          case (Inr v)
          with a Exited True ok
          have "fst (build_extensions h self (extensions self)
                  (snd (install_dependencies h ?w1))) = Inl (RuntimeError msg_cmake_too_old)"
            by (simp add: run_unfold)
          then show False by (auto dest: build_extensions_error)
        qed
      qed
      show ?thesis
      proof (cases "check_cmake_version h out")
        case (Inl e)
        with Exited True have "fst (run h self w) = Inl e"
          by (simp add: run_unfold)
        then have "(fst (run h self w) = Inl (RuntimeError msg_cmake_too_old))
            = (check_cmake_version h out = Inl (RuntimeError msg_cmake_too_old))"
          using Inl by simp
        then show ?thesis
          using Exited True by (simp add: check_cmake_version_too_old run_process_outcome)
      next
        case (Inr u)
        then have "check_cmake_version h out \<noteq> Inl (RuntimeError msg_cmake_too_old)"
          by simp
        then show ?thesis
          using later [OF Inr] Exited True
          by (simp add: check_cmake_version_too_old run_process_outcome)
      qed
    qed
  qed
qed

lemma tool_version_query:
  "fst (tool_spawn (Some v) rc version_query w) = Exited 0 (''cmake version '' @ v)"
  by (simp add: tool_spawn_def version_query_def)

lemma search_tool_output:
  "re_search_version ''cmake version 3.0.2'' = Some ''3.0.2''"
  "re_search_version ''cmake version 3.1.0'' = Some ''3.1.0''"
  "re_search_version ''cmake version 3.22.1'' = Some ''3.22.1''"
  "re_search_version ''cmake version ..'' = Some ''..''"
  by (simp_all add: match_version_at_def startswith_def is_space_def is_version_char_def
      is_digit_def)

lemma parse_tool_versions:
  "version_parse b ''3.0.2'' = Inr (Version [3, 0, 2])"
  "version_parse b ''3.22.1'' = Inr (Version [3, 22, 1])"
  "version_parse True ''..'' = Inr (LegacyVersion ''..'')"
  "version_parse False ''..'' = Inl (InvalidVersion ''..'')"
  by (simp_all add: version_parse_def is_digit_def)

theorem version_threshold_witness:
  "fst (run windows_host windows_build fresh_world)
     = Inl (RuntimeError ''CMake >= 3.1.0 is required on Windows'')
   \<and> fst (run (windows_host\<lparr>packaging_legacy := True, spawn := tool_spawn (Some ''..'') 0\<rparr>)
          windows_build fresh_world)
     = Inl (RuntimeError ''CMake >= 3.1.0 is required on Windows'')
   \<and> fst (run (windows_host\<lparr>spawn := tool_spawn (Some ''..'') 0\<rparr>) windows_build fresh_world)
     \<noteq> Inl (RuntimeError ''CMake >= 3.1.0 is required on Windows'')
   \<and> fst (run (windows_host\<lparr>spawn := tool_spawn (Some ''3.1.0'') 0\<rparr>) windows_build fresh_world)
     \<noteq> Inl (RuntimeError ''CMake >= 3.1.0 is required on Windows'')
   \<and> fst (run (windows_host\<lparr>spawn := tool_spawn (Some ''3.22.1'') 0\<rparr>) windows_build
          fresh_world)
     \<noteq> Inl (RuntimeError ''CMake >= 3.1.0 is required on Windows'')
   \<and> check_cmake_version windows_host ''cmake version 3.1.0'' = Inr ()
   \<and> check_cmake_version windows_host ''cmake version 3.22.1'' = Inr ()
   \<and> fst (run (linux_host\<lparr>spawn := tool_spawn (Some ''3.0.2'') 0\<rparr>) release_build fresh_world)
     \<noteq> Inl (RuntimeError ''CMake >= 3.1.0 is required on Windows'')"
proof -
  let ?legacy = "windows_host\<lparr>packaging_legacy := True, spawn := tool_spawn (Some ''..'') 0\<rparr>"
  let ?modern = "windows_host\<lparr>spawn := tool_spawn (Some ''..'') 0\<rparr>"
  let ?exact = "windows_host\<lparr>spawn := tool_spawn (Some ''3.1.0'') 0\<rparr>"
  let ?recent = "windows_host\<lparr>spawn := tool_spawn (Some ''3.22.1'') 0\<rparr>"
  let ?linux = "linux_host\<lparr>spawn := tool_spawn (Some ''3.0.2'') 0\<rparr>"
  have win: "platform_system windows_host = ''Windows''"
    "platform_system ?legacy = ''Windows''" "platform_system ?modern = ''Windows''"
    "platform_system ?exact = ''Windows''" "platform_system ?recent = ''Windows''"
    by (simp_all add: windows_host_def)
  have flag: "packaging_legacy windows_host = False" "packaging_legacy ?legacy = True"
    "packaging_legacy ?modern = False" "packaging_legacy ?exact = False"
    "packaging_legacy ?recent = False"
    by (simp_all add: windows_host_def)
  have q: "fst (spawn windows_host version_query fresh_world) = Exited 0 ''cmake version 3.0.2''"
    "fst (spawn ?legacy version_query fresh_world) = Exited 0 ''cmake version ..''"
    "fst (spawn ?modern version_query fresh_world) = Exited 0 ''cmake version ..''"
    "fst (spawn ?exact version_query fresh_world) = Exited 0 ''cmake version 3.1.0''"
    "fst (spawn ?recent version_query fresh_world) = Exited 0 ''cmake version 3.22.1''"
    using tool_version_query by (simp_all add: windows_host_def)
  have below: "version_lt (Version [3, 0, 2]) (Version [3, 1, 0])"
    and above: "\<not> version_lt (Version [3, 1, 0]) (Version [3, 1, 0])"
      "\<not> version_lt (Version [3, 22, 1]) (Version [3, 1, 0])"
    by (simp_all add: release_key_def)
  note t = version_threshold [of windows_host windows_build fresh_world]
  have a: "fst (run windows_host windows_build fresh_world)
      = Inl (RuntimeError msg_cmake_too_old)"
    using t win(1) q(1) search_tool_output(1) parse_tool_versions(1) [of False] below
    unfolding flag by blast
  note tl = version_threshold [of ?legacy windows_build fresh_world]
  have "version_lt (LegacyVersion ''..'') (Version [3, 1, 0])"
    using tl by blast
  then have b: "fst (run ?legacy windows_build fresh_world)
      = Inl (RuntimeError msg_cmake_too_old)"
    using tl win(2) q(2) search_tool_output(4) parse_tool_versions(3)
    unfolding flag by blast
  note tm = version_threshold [of ?modern windows_build fresh_world]
  have c: "fst (run ?modern windows_build fresh_world)
      \<noteq> Inl (RuntimeError msg_cmake_too_old)"
  proof
    assume "fst (run ?modern windows_build fresh_world) = Inl (RuntimeError msg_cmake_too_old)"
    with tm obtain out g v where o: "fst (spawn ?modern version_query fresh_world) = Exited 0 out"
      and s: "re_search_version out = Some g"
      and p: "version_parse (packaging_legacy ?modern) g = Inr v"
      by blast
    from o have out: "out = ''cmake version ..''"
      unfolding q(3) by simp
    from s have g: "g = ''..''"
      unfolding out search_tool_output(4) by simp
    from p show False
      unfolding g flag(3) parse_tool_versions(4) by simp
  qed
  note te = version_threshold [of ?exact windows_build fresh_world]
  have d: "fst (run ?exact windows_build fresh_world) \<noteq> Inl (RuntimeError msg_cmake_too_old)"
  proof
    assume "fst (run ?exact windows_build fresh_world) = Inl (RuntimeError msg_cmake_too_old)"
    with te obtain out g v where o: "fst (spawn ?exact version_query fresh_world) = Exited 0 out"
      and s: "re_search_version out = Some g"
      and p: "version_parse (packaging_legacy ?exact) g = Inr v"
      and l: "version_lt v (Version [3, 1, 0])"
      by blast
    from o have out: "out = ''cmake version 3.1.0''"
      unfolding q(4) by simp
    from s have g: "g = ''3.1.0''"
      unfolding out search_tool_output(2) by simp
    from p have "v = Version [3, 1, 0]"
      unfolding g flag(4) minimum_version by simp
    with l above(1) show False by simp
  qed
  note tr = version_threshold [of ?recent windows_build fresh_world]
  have e: "fst (run ?recent windows_build fresh_world) \<noteq> Inl (RuntimeError msg_cmake_too_old)"
  proof
    assume "fst (run ?recent windows_build fresh_world) = Inl (RuntimeError msg_cmake_too_old)"
    with tr obtain out g v where o: "fst (spawn ?recent version_query fresh_world) = Exited 0 out"
      and s: "re_search_version out = Some g"
      and p: "version_parse (packaging_legacy ?recent) g = Inr v"
      and l: "version_lt v (Version [3, 1, 0])"
      by blast
    from o have out: "out = ''cmake version 3.22.1''"
      unfolding q(5) by simp
    from s have g: "g = ''3.22.1''"
      unfolding out search_tool_output(3) by simp
    from p have "v = Version [3, 22, 1]"
      unfolding g flag(5) parse_tool_versions(2) by simp
    with l above(2) show False by simp
  qed
  have f: "check_cmake_version windows_host ''cmake version 3.1.0'' = Inr ()"
    using t win(1) search_tool_output(2) minimum_version [of False] above(1)
    unfolding flag by blast
  have g: "check_cmake_version windows_host ''cmake version 3.22.1'' = Inr ()"
    using t win(1) search_tool_output(3) parse_tool_versions(2) [of False] above(2)
    unfolding flag by blast
  have "platform_system ?linux \<noteq> ''Windows''"
    by (simp add: linux_host_def)
  with version_threshold [of ?linux release_build fresh_world]
  have h: "fst (run ?linux release_build fresh_world) \<noteq> Inl (RuntimeError msg_cmake_too_old)"
    by blast
  from a b c d e f g h show ?thesis
    unfolding msg_cmake_too_old_def by (intro conjI)
qed

section \<open>The target descriptor\<close>

lemma split_sep_nonempty: "split_sep c xs \<noteq> []"
  by (induction xs) (simp_all add: Let_def)

lemma split_sep_snoc: "split_sep c (xs @ [c]) = split_sep c xs @ [[]]"
proof (induction xs)
  case Nil
  show ?case by simp
next
  case (Cons x xs)
  then show ?case
    using split_sep_nonempty [of c xs] by (simp add: Let_def)
qed

lemma norm_step_empty: "norm_step n acc [] = acc"
  by (simp add: norm_step_def)

lemma initial_slashes_snoc:
  assumes "isabs p" and "last p \<noteq> CHR ''/''"
  shows "initial_slashes (p @ ''/'') = initial_slashes p"
proof -
  from assms obtain r where p: "p = CHR ''/'' # r" and r: "r \<noteq> []"
    by (cases p) (auto simp: isabs_def startswith_def split: if_splits)
  then obtain c r' where r': "r = c # r'"
    by (cases r) auto
  show ?thesis
  proof (cases "c = CHR ''/''")
    case False
    with p r' show ?thesis by (simp add: initial_slashes_def startswith_def)
  next
    case True
    with assms p r' have "r' \<noteq> []" by auto
    then obtain d r'' where "r' = d # r''" by (cases r') auto
    with p r' show ?thesis by (simp add: initial_slashes_def startswith_def)
  qed
qed

lemma normpath_trailing_slash:
  assumes "isabs p" and "last p \<noteq> CHR ''/''"
  shows "normpath (p @ ''/'') = normpath p"
proof -
  from assms have "p \<noteq> []"
    by (auto simp: isabs_def startswith_def)
  then show ?thesis
    using split_sep_snoc [of "CHR ''/''" p]
    by (simp add: normpath_def initial_slashes_snoc [OF assms] norm_step_empty)
qed

lemma isabs_normpath: "isabs p \<Longrightarrow> isabs (normpath p)"
proof -
  assume a: "isabs p"
  then have "p \<noteq> []" and "0 < initial_slashes p"
    by (auto simp: isabs_def startswith_def initial_slashes_def)
  then obtain n where "initial_slashes p = Suc n"
    by (cases "initial_slashes p") auto
  with \<open>p \<noteq> []\<close> show ?thesis
    by (simp add: normpath_def isabs_def startswith_def Let_def)
qed

lemma isabs_join: "isabs cwd \<Longrightarrow> isabs (posix_join cwd [d])"
  by (cases cwd) (auto simp: posix_join_def posix_join2_def isabs_def startswith_def)

lemma isabs_abspath: "isabs cwd \<Longrightarrow> isabs (posix_abspath cwd d)"
  by (simp add: posix_abspath_def isabs_normpath isabs_join)

lemma abspath_empty: "isabs cwd \<Longrightarrow> posix_abspath cwd [] = normpath cwd"
proof -
  assume a: "isabs cwd"
  then have n: "cwd \<noteq> []" by (auto simp: isabs_def startswith_def)
  have e: "\<not> isabs []" by (simp add: isabs_def startswith_def)
  show ?thesis
  proof (cases "last cwd = CHR ''/''")
    case True
    with n e show ?thesis
      by (simp add: posix_abspath_def posix_join_def posix_join2_def startswith_def)
  next
    case False
    with n e have "posix_abspath cwd [] = normpath (cwd @ ''/'')"
      by (simp add: posix_abspath_def posix_join_def posix_join2_def startswith_def)
    with a False show ?thesis by (simp add: normpath_trailing_slash)
  qed
qed

text \<open>
  The descriptor on a host whose \<open>os.path\<close> is \<open>posixpath\<close> and whose working
  directory is an absolute path, for every name and every \<open>sourcedir\<close> argument: it
  keeps the name, has no sources, and its source directory is an absolute path. For the
  empty argument (the default) it is the normal form of the working directory, hence
  the working directory itself when that is in normal form, as \<open>os.getcwd()\<close>
  reports it. On Windows \<open>os.path.abspath\<close> asks the operating system for the full
  path; that call is not modelled, and nothing is stated about such a host.
\<close>

lemma posix_target_descriptor:
  assumes "os_path h = posixpath" and "isabs (getcwd h)"
  shows "ext_name (CMakeExtension h name d) = name
         \<and> ext_sources (CMakeExtension h name d) = []
         \<and> sourcedir (CMakeExtension h name d) = posix_abspath (getcwd h) d
         \<and> isabs (sourcedir (CMakeExtension h name d))
         \<and> sourcedir (CMakeExtension h name []) = normpath (getcwd h)
         \<and> (normpath (getcwd h) = getcwd h \<longrightarrow> sourcedir (CMakeExtension h name []) = getcwd h)"
  using assms
  by (simp add: CMakeExtension_def posixpath_def isabs_abspath abspath_empty)

lemma posix_target_descriptor_example:
  "CMakeExtension linux_host ''pyflagser'' [] = pyflagser_ext
   \<and> sourcedir (CMakeExtension linux_host ''pyflagser'' ''../src/./ext//'') = ''/src/ext''
   \<and> isabs (sourcedir (CMakeExtension linux_host ''pyflagser'' ''../src/./ext//''))"
proof -
  have p: "os_path linux_host = posixpath" and c: "isabs (getcwd linux_host)"
    by (simp_all add: linux_host_def isabs_def startswith_def)
  have n: "normpath (getcwd linux_host) = getcwd linux_host"
    by (simp add: linux_host_def normpath_def initial_slashes_def startswith_def norm_step_def)
  have g: "getcwd linux_host = ''/repo''"
    by (simp add: linux_host_def)
  have a: "posix_abspath ''/repo'' ''../src/./ext//'' = ''/src/ext''"
    by (simp add: posix_abspath_def isabs_def startswith_def posix_join_def posix_join2_def
        normpath_def initial_slashes_def norm_step_def)
  note t = posix_target_descriptor [OF p c, of "''pyflagser''" "[]"]
  have "ext_name (CMakeExtension linux_host ''pyflagser'' []) = ''pyflagser''"
    and "ext_sources (CMakeExtension linux_host ''pyflagser'' []) = []"
    using t by blast+
  moreover have "sourcedir (CMakeExtension linux_host ''pyflagser'' []) = getcwd linux_host"
    using t n by blast
  ultimately have x: "CMakeExtension linux_host ''pyflagser'' [] = pyflagser_ext"
    by (simp add: pyflagser_ext_def cmake_extension.equality g)
  note u = posix_target_descriptor [OF p c, of "''pyflagser''" "''../src/./ext//''"]
  have "sourcedir (CMakeExtension linux_host ''pyflagser'' ''../src/./ext//'')
      = posix_abspath (getcwd linux_host) ''../src/./ext//''"
    using u by blast
  then have y: "sourcedir (CMakeExtension linux_host ''pyflagser'' ''../src/./ext//'') = ''/src/ext''"
    by (simp only: g a)
  have z: "isabs (sourcedir (CMakeExtension linux_host ''pyflagser'' ''../src/./ext//''))"
    using u by blast
  from x y z show ?thesis by blast
qed

end
